theory Spec2Isabelle
  imports Complex_Main "HOL-Library.Word" "HOL-Library.Log_Nat"
begin

unbundle bit_operations_syntax

chapter \<open>Solana transaction manager, instruction builder and Merkle-tree decoder\<close>

text \<open>
  A shallow embedding of
  \<^item> \<^verbatim>\<open>components/brave_wallet/browser/solana_tx_manager.cc\<close>
    (the Merkle-tree account decoder and the transaction life cycle),
  \<^item> \<^verbatim>\<open>components/brave_wallet/browser/solana_instruction_builder.cc\<close>
    (the bubblegum-program transfer builder), and
  \<^item> the NFT page parser declared in \<^verbatim>\<open>simple_hash_client.h\<close>.

  Machine integers are words: \<^verbatim>\<open>uint8_t\<close>, \<^verbatim>\<open>uint32_t\<close>, \<^verbatim>\<open>uint64_t\<close> and
  \<^verbatim>\<open>size_t\<close> (64 bit) wrap around as the C++ unsigned types do.
\<close>

section \<open>Machine types\<close>

type_synonym byte = "8 word"
type_synonym uint32_t = "32 word"
type_synonym uint64_t = "64 word"
type_synonym size_t = "64 word"

text \<open>\<^verbatim>\<open>std::vector::size()\<close> as a \<^verbatim>\<open>size_t\<close>.\<close>

definition vec_size :: "'a list \<Rightarrow> size_t" where
  "vec_size v = of_nat (length v)"

section \<open>Decoding the Merkle-tree account\<close>

subsection \<open>The bounds-checked readers\<close>

text \<open>
  Each reader takes the buffer and the offset and returns the value read together with
  the advanced offset (the source advances \<^verbatim>\<open>size_t& offset\<close> in place), or \<open>None\<close>
  for \<^verbatim>\<open>std::nullopt\<close>.
\<close>

definition DecodeUint8 :: "byte list \<Rightarrow> size_t \<Rightarrow> (byte \<times> size_t) option" where
  "DecodeUint8 input offset =
     (if vec_size input \<le> offset \<or> vec_size input - offset < 1 then None
      else let offset' = offset + 1
           in Some (input ! unat (offset' - 1), offset'))"

text \<open>
  \<^verbatim>\<open>DecodeUint32\<close> reinterprets the four bytes at the offset as a little-endian
  \<^verbatim>\<open>uint32_t\<close> (byte-swapped on a big-endian host, so the value is the same).
\<close>

definition uint32_le :: "byte \<Rightarrow> byte \<Rightarrow> byte \<Rightarrow> byte \<Rightarrow> uint32_t" where
  "uint32_le b0 b1 b2 b3 =
     ucast b0 + 256 * ucast b1 + 65536 * ucast b2 + 16777216 * ucast b3"

definition DecodeUint32 :: "byte list \<Rightarrow> size_t \<Rightarrow> (uint32_t \<times> size_t) option" where
  "DecodeUint32 input offset =
     (if vec_size input \<le> offset \<or> vec_size input - offset < 4 then None
      else Some (uint32_le (input ! unat offset) (input ! unat (offset + 1))
                           (input ! unat (offset + 2)) (input ! unat (offset + 3)),
                 offset + 4))"

text \<open>
  \<^verbatim>\<open>Base58Encode\<close> is defined in \<^verbatim>\<open>encoding_utils\<close>, outside the two files embedded
  here; it is a parameter of the reader.
\<close>

definition kSolanaPubkeySize :: size_t where
  "kSolanaPubkeySize = 32"

definition DecodePublicKey ::
  "(byte list \<Rightarrow> string) \<Rightarrow> byte list \<Rightarrow> size_t \<Rightarrow> (string \<times> size_t) option" where
  "DecodePublicKey Base58Encode input offset =
     (if vec_size input \<le> offset \<or> vec_size input - offset < kSolanaPubkeySize then None
      else let offset' = offset + kSolanaPubkeySize
           in Some (Base58Encode (take (unat kSolanaPubkeySize)
                                    (drop (unat (offset' - kSolanaPubkeySize)) input)),
                    offset'))"

subsection \<open>Skipping the change-log ring buffer\<close>

text \<open>
  The size of one change-log entry and of the rightmost-path record are computed in
  \<^verbatim>\<open>uint32_t\<close> arithmetic (\<^verbatim>\<open>32 * *max_depth\<close> has type \<^verbatim>\<open>unsigned int\<close>) and
  only then added to the \<^verbatim>\<open>size_t\<close> offset.
\<close>

definition change_log_size :: "uint32_t \<Rightarrow> uint32_t" where
  "change_log_size max_depth = 32 + 32 * max_depth + 4 + 4"

definition rightmost_path_size :: "uint32_t \<Rightarrow> uint32_t" where
  "rightmost_path_size max_depth = 32 * max_depth + 32 + 4 + 4"

text \<open>
  \<^verbatim>\<open>for (size_t i = 0; i < max_buffer_size; i++) offset += ...\<close>. The counter stays
  below \<open>2 ^ 32\<close>, so it is a natural number here.
\<close>

function skip_change_logs :: "nat \<Rightarrow> uint32_t \<Rightarrow> uint32_t \<Rightarrow> size_t \<Rightarrow> size_t" where
  "skip_change_logs i max_buffer_size max_depth offset =
     (if i < unat max_buffer_size
      then skip_change_logs (i + 1) max_buffer_size max_depth
             (offset + ucast (change_log_size max_depth))
      else offset)"
  by pat_completeness auto
termination
  by (relation "measure (\<lambda>(i, max_buffer_size, max_depth, offset). unat max_buffer_size - i)")
    auto

declare skip_change_logs.simps [simp del]

subsection \<open>The canopy depth\<close>

text \<open>
  \<^verbatim>\<open>canopy_depth = std::log2(canopy_byte_length / 32.0 + 2) - 1\<close> is evaluated in
  \<^verbatim>\<open>double\<close> and converted to \<^verbatim>\<open>uint32_t\<close>, which truncates towards zero. A
  \<^verbatim>\<open>double\<close> is the real number it denotes. The conversion of the \<^verbatim>\<open>size_t\<close> to
  \<^verbatim>\<open>double\<close>, the division, the addition and the subtraction each round their exact
  result to the nearest number with 53 significant bits, a tie to the one whose last bit
  is even. The exponent range of the format is left unbounded: the values that occur are
  far inside it. A value outside the range of \<^verbatim>\<open>uint32_t\<close> has no defined conversion
  in C++; the model reduces it modulo \<open>2 ^ 32\<close>, and no logarithm that is off by less
  than a unit yields one here.
\<close>

definition round_half_even :: "real \<Rightarrow> int" where
  "round_half_even r =
     (if r - of_int \<lfloor>r\<rfloor> < 1 / 2 then \<lfloor>r\<rfloor>
      else if 1 / 2 < r - of_int \<lfloor>r\<rfloor> then \<lfloor>r\<rfloor> + 1
      else if even \<lfloor>r\<rfloor> then \<lfloor>r\<rfloor> else \<lfloor>r\<rfloor> + 1)"

definition round_double :: "real \<Rightarrow> real" where
  "round_double x =
     (if x = 0 then 0
      else let ulp = 2 powr (of_int \<lfloor>log 2 \<bar>x\<bar>\<rfloor> - 52)
           in ulp * of_int (round_half_even (x / ulp)))"

definition double_to_uint32 :: "real \<Rightarrow> uint32_t" where
  "double_to_uint32 x = word_of_int (if 0 \<le> x then \<lfloor>x\<rfloor> else \<lceil>x\<rceil>)"

text \<open>
  \<^verbatim>\<open>std::log2\<close> belongs to the C library, whose rounding differs from one
  implementation to the next: it is a parameter, a function from the double it is given
  to the double it returns.
\<close>

definition canopy_depth_of :: "(real \<Rightarrow> real) \<Rightarrow> size_t \<Rightarrow> uint32_t" where
  "canopy_depth_of log2_double canopy_byte_length =
     (if canopy_byte_length = 0 then 0
      else double_to_uint32
             (round_double
                (log2_double
                   (round_double
                      (round_double (round_double (real (unat canopy_byte_length)) / 32) + 2))
                 - 1)))"


subsection \<open>The decoder\<close>

text \<open>
  The offset after the authority key, as the source advances it: creation slot and
  padding, the three \<^verbatim>\<open>uint64\<close> tree counters, the ring buffer, the rightmost path.
\<close>

definition tree_end_offset :: "uint32_t \<Rightarrow> uint32_t \<Rightarrow> size_t \<Rightarrow> size_t" where
  "tree_end_offset max_buffer_size max_depth offset =
     (let offset1 = offset + (8 + 6);
          offset2 = offset1 + (8 + 8 + 8);
          offset3 = skip_change_logs 0 max_buffer_size max_depth offset2
      in offset3 + ucast (rightmost_path_size max_depth))"

text \<open>
  \<^verbatim>\<open>SolanaAddress::FromBase58\<close> is defined in \<^verbatim>\<open>solana_address\<close>; it is a
  parameter, returning \<open>None\<close> where the address does not parse. The first parameter is
  the library's \<^verbatim>\<open>std::log2\<close>.
\<close>

definition DecodeMerkleTreeAuthorityAndDepth ::
  "(real \<Rightarrow> real) \<Rightarrow> (byte list \<Rightarrow> string) \<Rightarrow> (string \<Rightarrow> 'addr option) \<Rightarrow> byte list
     \<Rightarrow> (uint32_t \<times> 'addr) option" where
  "DecodeMerkleTreeAuthorityAndDepth log2_double Base58Encode FromBase58 data =
     (case DecodeUint8 data 0 of
        None \<Rightarrow> None
      | Some (compression_account_type, off1) \<Rightarrow>
          (if compression_account_type \<noteq> 1 then None
           else (case DecodeUint8 data off1 of
             None \<Rightarrow> None
           | Some (version, off2) \<Rightarrow>
               (if version \<noteq> 0 then None
                else (case DecodeUint32 data off2 of
                  None \<Rightarrow> None
                | Some (max_buffer_size, off3) \<Rightarrow>
                    (case DecodeUint32 data off3 of
                      None \<Rightarrow> None
                    | Some (max_depth, off4) \<Rightarrow>
                        (case DecodePublicKey Base58Encode data off4 of
                          None \<Rightarrow> None
                        | Some (authority, off5) \<Rightarrow>
                            (case FromBase58 authority of
                              None \<Rightarrow> None
                            | Some authority_address \<Rightarrow>
                                (let offset = tree_end_offset max_buffer_size max_depth off5;
                                     canopy_byte_length = vec_size data - offset
                                 in Some (canopy_depth_of log2_double canopy_byte_length,
                                          authority_address))))))))))"

subsection \<open>The header fields and the bytes before the canopy\<close>

text \<open>
  The two \<^verbatim>\<open>uint32\<close> fields as the decoder reads them, at the offsets 2 and 6, and the
  number of bytes the decoder passes over before the canopy: the header up to the
  authority key (42 bytes), the creation slot and padding, the three tree counters, the
  ring buffer and the rightmost path, with the record sizes as the code computes them.
\<close>

definition header_max_buffer_size :: "byte list \<Rightarrow> uint32_t" where
  "header_max_buffer_size v = uint32_le (v ! 2) (v ! 3) (v ! 4) (v ! 5)"

definition header_max_depth :: "byte list \<Rightarrow> uint32_t" where
  "header_max_depth v = uint32_le (v ! 6) (v ! 7) (v ! 8) (v ! 9)"

definition tree_bytes :: "uint32_t \<Rightarrow> uint32_t \<Rightarrow> nat" where
  "tree_bytes mbs md =
     42 + (8 + 6) + (8 + 8 + 8) + unat mbs * unat (change_log_size md)
       + unat (rightmost_path_size md)"

subsection \<open>The layout of the account\<close>





section \<open>The instruction builder\<close>

subsection \<open>Instructions and account metas\<close>

text \<open>
  \<^verbatim>\<open>SolanaAccountMeta(pubkey, address_table_lookup_index, is_signer, is_writable)\<close> and
  \<^verbatim>\<open>SolanaInstruction(program_id, accounts, data)\<close>, with the fields their
  constructors take in the builder.
\<close>

record SolanaAccountMeta =
  pubkey :: string
  address_table_lookup_index :: "byte option"
  is_signer :: bool
  is_writable :: bool

record SolanaInstruction =
  program_id :: string
  accounts :: "SolanaAccountMeta list"
  data :: "byte list"

definition AccountMeta :: "string \<Rightarrow> byte option \<Rightarrow> bool \<Rightarrow> bool \<Rightarrow> SolanaAccountMeta" where
  "AccountMeta key idx signer writable =
     \<lparr>pubkey = key, address_table_lookup_index = idx, is_signer = signer,
      is_writable = writable\<rparr>"

text \<open>The proof data of \<^verbatim>\<open>simple_hash_client.h\<close>; the field \<^verbatim>\<open>proof\<close> is \<open>proof_path\<close> here.\<close>

record SolCompressedNftProofData =
  root :: string
  data_hash :: string
  creator_hash :: string
  owner :: string
  proof_path :: "string list"
  merkle_tree :: string
  delegate :: string
  leaf_index :: uint64_t
  canopy_depth :: uint64_t

text \<open>
  \<^verbatim>\<open>UintToLEBytes\<close>: the bytes of an unsigned integer, least significant first, whatever
  the byte order of the host.
\<close>

definition UintToLEBytes :: "'a::len word \<Rightarrow> byte list" where
  "UintToLEBytes val = map (\<lambda>i. ucast (drop_bit (8 * i) val)) [0..<LENGTH('a) div 8]"

subsection \<open>The bubblegum-program transfer\<close>

text \<open>
  The program identifiers \<^verbatim>\<open>mojom::kSolanaSystemProgramId\<close> and
  \<^verbatim>\<open>mojom::kSolanaBubbleGumProgramId\<close> are constants of the wallet's interface
  definition; they are given the addresses of the two programs, and no property below
  depends on their values.
\<close>

definition kSolanaSystemProgramId :: string where
  "kSolanaSystemProgramId = ''11111111111111111111111111111111''"

definition kSolanaBubbleGumProgramId :: string where
  "kSolanaBubbleGumProgramId = ''BGUMAp9Gq7iTEuizy4pqaxsTyUCBK68MDfK752saRPUY''"

definition compression_program :: string where
  "compression_program = ''cmtDvXumGCrqC1Age74AVPhSRVXJMd8PJS91L8KbNCK''"

definition log_wrapper :: string where
  "log_wrapper = ''noopb9bkMVfRPU8AsbpTUg8AQkHtKwMYZiFUjNRtMmV''"

definition transfer_instruction_discriminator :: "byte list" where
  "transfer_instruction_discriminator = [163, 52, 200, 231, 140, 3, 69, 186]"

text \<open>
  Indexing a \<^verbatim>\<open>std::vector\<close> past its end has no defined result; the model makes it
  a fault of its own, apart from the builder's \<^verbatim>\<open>std::nullopt\<close>.
\<close>

datatype fault = OutOfBoundsRead

text \<open>
  \<^verbatim>\<open>for (size_t i = 0; i < end; ++i) account_metas.push_back(... proof.proof[i] ...)\<close>.
  The counter never passes the length of the vector (the read faults there), so it is a
  natural number.
\<close>

function add_proof_accounts ::
  "string list \<Rightarrow> size_t \<Rightarrow> nat \<Rightarrow> SolanaAccountMeta list \<Rightarrow> fault + SolanaAccountMeta list" where
  "add_proof_accounts path end_index i account_metas =
     (if i < unat end_index
      then (if i < length path
            then add_proof_accounts path end_index (i + 1)
                   (account_metas @ [AccountMeta (path ! i) None False False])
            else Inl OutOfBoundsRead)
      else Inr account_metas)"
  by pat_completeness auto
termination
  by (relation "measure (\<lambda>(path, end_index, i, account_metas). length path - i)") auto

declare add_proof_accounts.simps [simp del]

text \<open>
  \<^verbatim>\<open>solana::bubblegum_program::Transfer\<close>. \<^verbatim>\<open>Base58Decode(str, &bytes, len)\<close> belongs to
  \<^verbatim>\<open>encoding_utils\<close> and is a parameter: \<open>None\<close> where it returns false, the bytes
  it stores otherwise. The result is \<open>Inr None\<close> for \<^verbatim>\<open>std::nullopt\<close>, \<open>Inr (Some _)\<close>
  for an instruction.
\<close>

definition bubblegum_program_Transfer ::
  "(string \<Rightarrow> nat \<Rightarrow> byte list option) \<Rightarrow> uint32_t \<Rightarrow> string \<Rightarrow> string
     \<Rightarrow> SolCompressedNftProofData \<Rightarrow> fault + SolanaInstruction option" where
  "bubblegum_program_Transfer Base58Decode canopy_depth_arg tree_authority new_leaf_owner proof_data =
     (case Base58Decode (root proof_data) 32 of
        None \<Rightarrow> Inr None
      | Some root_bytes \<Rightarrow>
          (case Base58Decode (data_hash proof_data) 32 of
             None \<Rightarrow> Inr None
           | Some data_hash_bytes \<Rightarrow>
               (case Base58Decode (creator_hash proof_data) 32 of
                  None \<Rightarrow> Inr None
                | Some creator_hash_bytes \<Rightarrow>
                    (let instruction_data =
                           transfer_instruction_discriminator @ root_bytes @ data_hash_bytes
                           @ creator_hash_bytes
                           @ UintToLEBytes (leaf_index proof_data)
                           @ UintToLEBytes (ucast (leaf_index proof_data) :: uint32_t);
                         account_metas =
                           [AccountMeta tree_authority None False False,
                            AccountMeta (owner proof_data) None False False,
                            AccountMeta (owner proof_data) None False False,
                            AccountMeta new_leaf_owner None False False,
                            AccountMeta (merkle_tree proof_data) None False True,
                            AccountMeta log_wrapper None False False,
                            AccountMeta compression_program None False False,
                            AccountMeta kSolanaSystemProgramId None False False];
                         end_index = vec_size (proof_path proof_data) - canopy_depth proof_data
                     in (case add_proof_accounts (proof_path proof_data) end_index 0 account_metas of
                           Inl f \<Rightarrow> Inl f
                         | Inr metas \<Rightarrow>
                             Inr (Some \<lparr>program_id = kSolanaBubbleGumProgramId,
                                        accounts = metas,
                                        data = instruction_data\<rparr>))))))"

text \<open>
  The account metas of a successful transfer: the fixed prefix, and the meta of one node
  of the proof path.
\<close>

definition proof_account :: "string \<Rightarrow> SolanaAccountMeta" where
  "proof_account k = AccountMeta k None False False"

definition transfer_accounts ::
  "string \<Rightarrow> string \<Rightarrow> SolCompressedNftProofData \<Rightarrow> SolanaAccountMeta list" where
  "transfer_accounts tree_authority new_leaf_owner proof_data =
     [AccountMeta tree_authority None False False,
      AccountMeta (owner proof_data) None False False,
      AccountMeta (owner proof_data) None False False,
      AccountMeta new_leaf_owner None False False,
      AccountMeta (merkle_tree proof_data) None False True,
      AccountMeta log_wrapper None False False,
      AccountMeta compression_program None False False,
      AccountMeta kSolanaSystemProgramId None False False]"

section \<open>The transaction manager\<close>

subsection \<open>Transactions and their metadata\<close>

text \<open>
  Modelled from the spec: the data model of the transaction metadata (section 3), for the
  classes \<^verbatim>\<open>SolanaMessage\<close>, \<^verbatim>\<open>SolanaTransaction\<close>, \<^verbatim>\<open>SolanaTxMeta\<close> and
  \<^verbatim>\<open>SolanaSignatureStatus\<close>, which are declared in other files. The records hold the
  fields the manager reads and writes through their accessors; the metadata always
  carries its transaction. A \<^verbatim>\<open>base::Time\<close> is a natural number, \<open>0\<close> being the null
  time \<^verbatim>\<open>base::Time()\<close>.
\<close>

datatype TransactionStatus = Unapproved | Approved | Submitted | Confirmed | Error | Dropped

datatype SolanaProviderError = kSuccess | kInternalError | kInvalidParams | kOtherError nat

type_synonym Time = nat

record SolanaSignatureStatus =
  err :: string
  confirmation_status :: string

record SolanaMessage =
  recent_blockhash :: string
  last_valid_block_height :: uint64_t
  fee_payer :: string
  instructions :: "SolanaInstruction list"

record SolanaTransaction =
  message :: SolanaMessage
  sign_tx_param :: "string option"
  raw_signatures :: "byte list list"

record SolanaTxMeta =
  meta_id :: string
  status :: TransactionStatus
  chain_id :: string
  created_time :: Time
  submitted_time :: Time
  confirmed_time :: Time
  tx_hash :: string
  signature_status :: SolanaSignatureStatus
  tx :: SolanaTransaction

definition set_recent_blockhash :: "string \<Rightarrow> SolanaTxMeta \<Rightarrow> SolanaTxMeta" where
  "set_recent_blockhash blockhash meta =
     meta\<lparr>tx := (tx meta)\<lparr>message := (message (tx meta))\<lparr>recent_blockhash := blockhash\<rparr>\<rparr>\<rparr>"

definition set_last_valid_block_height :: "uint64_t \<Rightarrow> SolanaTxMeta \<Rightarrow> SolanaTxMeta" where
  "set_last_valid_block_height height meta =
     meta\<lparr>tx := (tx meta)\<lparr>message :=
       (message (tx meta))\<lparr>last_valid_block_height := height\<rparr>\<rparr>\<rparr>"

definition set_sign_tx_param :: "string option \<Rightarrow> SolanaTxMeta \<Rightarrow> SolanaTxMeta" where
  "set_sign_tx_param param meta = meta\<lparr>tx := (tx meta)\<lparr>sign_tx_param := param\<rparr>\<rparr>"

definition ClearRawSignatures :: "SolanaTxMeta \<Rightarrow> SolanaTxMeta" where
  "ClearRawSignatures meta = meta\<lparr>tx := (tx meta)\<lparr>raw_signatures := []\<rparr>\<rparr>"

subsection \<open>The transaction store\<close>

text \<open>
  Modelled from the spec: the storage collaborator (\<^verbatim>\<open>SolanaTxStateManager\<close>, defined in
  another file), which keeps the transactions by their id and may refuse writes.
\<close>

record TxStateManager =
  transactions :: "SolanaTxMeta list"
  accepts_writes :: bool

text \<open>Modelled from the spec: \<^verbatim>\<open>GetTransaction(id) -> meta_or_none\<close>.\<close>

definition GetSolanaTx :: "string \<Rightarrow> TxStateManager \<Rightarrow> SolanaTxMeta option" where
  "GetSolanaTx k s = find (\<lambda>m. meta_id m = k) (transactions s)"

text \<open>
  Modelled from the spec: \<^verbatim>\<open>AddOrUpdateTransaction(meta) -> bool\<close>. The transaction of
  the same id is replaced, a new id is added; a store that refuses the write returns
  false and keeps its content.
\<close>

fun put_tx :: "SolanaTxMeta \<Rightarrow> SolanaTxMeta list \<Rightarrow> SolanaTxMeta list" where
  "put_tx meta [] = [meta]"
| "put_tx meta (m # ms) =
     (if meta_id m = meta_id meta then meta # ms else m # put_tx meta ms)"

definition AddOrUpdateTx :: "SolanaTxMeta \<Rightarrow> TxStateManager \<Rightarrow> bool \<times> TxStateManager" where
  "AddOrUpdateTx meta s =
     (if accepts_writes s
      then (True, s\<lparr>transactions := put_tx meta (transactions s)\<rparr>)
      else (False, s))"

text \<open>
  Modelled from the spec:
  \<^verbatim>\<open>ListTransactionsByStatus(chain_or_none, status, coin_or_none) -> [meta]\<close>, for the one
  coin of this manager.
\<close>

definition GetTransactionsByStatus ::
  "string option \<Rightarrow> TransactionStatus \<Rightarrow> TxStateManager \<Rightarrow> SolanaTxMeta list" where
  "GetTransactionsByStatus chain st s =
     filter (\<lambda>m. (chain = None \<or> chain = Some (chain_id m)) \<and> status m = st)
       (transactions s)"

subsection \<open>Calls to the collaborators\<close>

text \<open>
  Every method of the manager returns the store and the calls it makes, in order. A call
  to the RPC service or to the block tracker carries the arguments bound into its
  continuation; the continuation is the method named in the constructor's comment, run
  later with the response.
\<close>

datatype effect =
    GetLatestBlockhash string SolanaTxMeta
      \<comment> \<open>chain; then \<open>OnGetLatestBlockhash meta\<close>\<close>
  | GetSolanaBlockHeight string SolanaTxMeta string
      \<comment> \<open>chain; then \<open>OnGetBlockHeightForBlockhash meta blockhash\<close>\<close>
  | SendSolanaTransaction string SolanaTransaction string
      \<comment> \<open>chain, the transaction signed and sent; then \<open>OnSendSolanaTransaction id\<close>\<close>
  | GetSolanaSignatureStatuses string "string list" "string list" uint64_t
      \<comment> \<open>chain, signatures; then \<open>OnGetSignatureStatuses chain ids block_height\<close>\<close>
  | GetLatestBlockhashForFee string SolanaTxMeta
      \<comment> \<open>chain; then \<open>OnGetLatestBlockhashForGetEstimatedTxFee meta\<close>\<close>
  | GetSolanaFeeForMessage string SolanaMessage
      \<comment> \<open>chain, the message encoded and priced; then \<open>OnGetFeeForMessage\<close>\<close>
  | GetLatestBlockhashHardware string SolanaTxMeta
      \<comment> \<open>chain; then \<open>OnGetLatestBlockhashHardware meta\<close>\<close>
  | GetSolanaBlockHeightHardware string SolanaTxMeta string
      \<comment> \<open>chain; then \<open>OnGetBlockHeightForBlockhashHardware meta blockhash\<close>\<close>
  | SendSignedSolanaTransaction string "byte list" string
      \<comment> \<open>chain, the signed bytes sent; then \<open>OnSendSolanaTransaction id\<close>\<close>
  | GetSolanaBlockHeightPending string
      \<comment> \<open>chain; then \<open>OnGetBlockHeight chain\<close>\<close>
  | CheckIfBlockTrackerShouldRun "string set"
  | AddUnapprovedTransactionCallback bool string string
  | ApproveTransactionCallback bool SolanaProviderError string
  | GetTransactionMessageToSignCallback "byte list option"
  | ProcessSolanaHardwareSignatureCallback bool SolanaProviderError string
  | RetryTransactionCallback bool string string
  | GetEstimatedTxFeeCallback uint64_t SolanaProviderError string

definition kValidBlockHeightThreshold :: uint64_t where
  "kValidBlockHeightThreshold = 150"

subsection \<open>Adding a transaction\<close>

text \<open>
  Modelled from the spec: the metadata a transaction starts with (section 3), before the
  manager sets its fields: no id, no chain, the times unset, no hash, no signature
  status.
\<close>

definition new_tx_meta :: "SolanaTransaction \<Rightarrow> SolanaTxMeta" where
  "new_tx_meta t =
     \<lparr>meta_id = [], status = Unapproved, chain_id = [], created_time = 0, submitted_time = 0,
      confirmed_time = 0, tx_hash = [],
      signature_status = \<lparr>err = [], confirmation_status = []\<rparr>, tx = t\<rparr>"

text \<open>
  \<^verbatim>\<open>SolanaTransaction::FromSolanaTxData\<close> is defined in another file: its result is the
  parameter \<open>tx_from_data\<close>, \<open>None\<close> where the conversion fails. The generated id and
  the current time are parameters; the sender account and the origin are not among the
  fields of the record.
\<close>

definition AddUnapprovedTransaction ::
  "string \<Rightarrow> Time \<Rightarrow> string \<Rightarrow> SolanaTransaction option \<Rightarrow> TxStateManager
     \<Rightarrow> TxStateManager \<times> effect list" where
  "AddUnapprovedTransaction generated_id now chain tx_from_data s =
     (case tx_from_data of
        None \<Rightarrow>
          (s, [AddUnapprovedTransactionCallback False []
                 ''IDS_WALLET_SEND_TRANSACTION_CONVERT_TX_DATA''])
      | Some t \<Rightarrow>
          (let meta = (new_tx_meta t)\<lparr>meta_id := generated_id, created_time := now,
                                      status := Unapproved, chain_id := chain\<rparr>
           in (case AddOrUpdateTx meta s of
                 (False, s') \<Rightarrow>
                   (s', [AddUnapprovedTransactionCallback False []
                           ''IDS_WALLET_INTERNAL_ERROR''])
               | (True, s') \<Rightarrow>
                   (s', [AddUnapprovedTransactionCallback True (meta_id meta) []]))))"

subsection \<open>Approval\<close>

text \<open>
  An unknown id runs into \<^verbatim>\<open>DCHECK(false)\<close>, which does nothing in a release build, and
  is reported to the callback as an internal error.
\<close>

definition ApproveTransaction :: "string \<Rightarrow> TxStateManager \<Rightarrow> TxStateManager \<times> effect list" where
  "ApproveTransaction tx_meta_id s =
     (case GetSolanaTx tx_meta_id s of
        None \<Rightarrow>
          (s, [ApproveTransactionCallback False kInternalError
                 ''IDS_BRAVE_WALLET_TRANSACTION_NOT_FOUND''])
      | Some meta \<Rightarrow>
          (let blockhash = recent_blockhash (message (tx meta));
               chain = chain_id meta
           in if blockhash = []
              then (s, [GetLatestBlockhash chain meta])
              else (s, [GetSolanaBlockHeight chain meta blockhash])))"

definition OnGetLatestBlockhash ::
  "SolanaTxMeta \<Rightarrow> string \<Rightarrow> uint64_t \<Rightarrow> SolanaProviderError \<Rightarrow> string
     \<Rightarrow> TxStateManager \<Rightarrow> TxStateManager \<times> effect list" where
  "OnGetLatestBlockhash meta latest_blockhash height error error_message s =
     (if error \<noteq> kSuccess
      then (s, [ApproveTransactionCallback False error error_message])
      else (let meta1 = meta\<lparr>status := Approved\<rparr>;
                meta2 = set_recent_blockhash latest_blockhash meta1;
                meta3 = set_last_valid_block_height height meta2
            in (case AddOrUpdateTx meta3 s of
                  (False, s') \<Rightarrow>
                    (s', [ApproveTransactionCallback False kInternalError
                            ''IDS_WALLET_INTERNAL_ERROR''])
                | (True, s') \<Rightarrow>
                    (s', [SendSolanaTransaction (chain_id meta3) (tx meta3)
                            (meta_id meta3)]))))"

definition OnGetBlockHeightForBlockhash ::
  "SolanaTxMeta \<Rightarrow> string \<Rightarrow> uint64_t \<Rightarrow> SolanaProviderError \<Rightarrow> string
     \<Rightarrow> TxStateManager \<Rightarrow> TxStateManager \<times> effect list" where
  "OnGetBlockHeightForBlockhash meta blockhash block_height error error_message s =
     (if error \<noteq> kSuccess
      then (s, [ApproveTransactionCallback False error error_message])
      else OnGetLatestBlockhash meta blockhash (block_height + kValidBlockHeightThreshold)
             kSuccess [] s)"

subsection \<open>Signing on a hardware wallet\<close>

text \<open>
  \<^verbatim>\<open>GetTransactionMessageToSign\<close> and its continuations. The callback receives
  \<^verbatim>\<open>nullptr\<close> (\<open>None\<close>) or the bytes of the message.
  \<^verbatim>\<open>SolanaTransaction::GetSerializedMessage\<close> is defined in another file and is a
  parameter, giving the first component of the pair it returns.
\<close>

definition GetTransactionMessageToSign ::
  "string \<Rightarrow> TxStateManager \<Rightarrow> TxStateManager \<times> effect list" where
  "GetTransactionMessageToSign tx_meta_id s =
     (case GetSolanaTx tx_meta_id s of
        None \<Rightarrow> (s, [GetTransactionMessageToSignCallback None])
      | Some meta \<Rightarrow>
          (let blockhash = recent_blockhash (message (tx meta));
               chain = chain_id meta
           in if blockhash = []
              then (s, [GetLatestBlockhashHardware chain meta])
              else (s, [GetSolanaBlockHeightHardware chain meta blockhash])))"

definition OnGetLatestBlockhashHardware ::
  "(SolanaTransaction \<Rightarrow> byte list option) \<Rightarrow> SolanaTxMeta \<Rightarrow> string \<Rightarrow> uint64_t
     \<Rightarrow> SolanaProviderError \<Rightarrow> string \<Rightarrow> TxStateManager \<Rightarrow> TxStateManager \<times> effect list" where
  "OnGetLatestBlockhashHardware GetSerializedMessage meta latest_blockhash height error
       error_message s =
     (if error \<noteq> kSuccess
      then (s, [GetTransactionMessageToSignCallback None])
      else (let meta1 = set_recent_blockhash latest_blockhash meta;
                meta2 = set_last_valid_block_height height meta1
            in (case AddOrUpdateTx meta2 s of
                  (False, s') \<Rightarrow> (s', [GetTransactionMessageToSignCallback None])
                | (True, s') \<Rightarrow>
                    (case GetSerializedMessage (tx meta2) of
                       None \<Rightarrow> (s', [GetTransactionMessageToSignCallback None])
                     | Some message_bytes \<Rightarrow>
                         (s', [GetTransactionMessageToSignCallback (Some message_bytes)])))))"

definition OnGetBlockHeightForBlockhashHardware ::
  "(SolanaTransaction \<Rightarrow> byte list option) \<Rightarrow> SolanaTxMeta \<Rightarrow> string \<Rightarrow> uint64_t
     \<Rightarrow> SolanaProviderError \<Rightarrow> string \<Rightarrow> TxStateManager \<Rightarrow> TxStateManager \<times> effect list" where
  "OnGetBlockHeightForBlockhashHardware GetSerializedMessage meta blockhash block_height error
       error_message s =
     (if error \<noteq> kSuccess
      then (s, [GetTransactionMessageToSignCallback None])
      else OnGetLatestBlockhashHardware GetSerializedMessage meta blockhash
             (block_height + kValidBlockHeightThreshold) kSuccess [] s)"

text \<open>
  \<^verbatim>\<open>ProcessSolanaHardwareSignature\<close>.
  \<^verbatim>\<open>SolanaTransaction::GetSignedTransactionBytes\<close> is defined in another file and is a
  parameter; the bytes it returns are sent (Base64-encoded on the way).
\<close>

definition ProcessSolanaHardwareSignature ::
  "(SolanaTransaction \<Rightarrow> byte list \<Rightarrow> byte list option) \<Rightarrow> string \<Rightarrow> byte list
     \<Rightarrow> TxStateManager \<Rightarrow> TxStateManager \<times> effect list" where
  "ProcessSolanaHardwareSignature GetSignedTransactionBytes tx_meta_id signature_bytes s =
     (case GetSolanaTx tx_meta_id s of
        None \<Rightarrow>
          (s, [ProcessSolanaHardwareSignatureCallback False kInternalError
                 ''IDS_BRAVE_WALLET_TRANSACTION_NOT_FOUND''])
      | Some meta \<Rightarrow>
          (case GetSignedTransactionBytes (tx meta) signature_bytes of
             None \<Rightarrow>
               (s, [ProcessSolanaHardwareSignatureCallback False kInternalError
                      ''IDS_WALLET_INTERNAL_ERROR''])
           | Some transaction_bytes \<Rightarrow>
               (let meta1 = meta\<lparr>status := Approved\<rparr>
                in (case AddOrUpdateTx meta1 s of
                      (False, s') \<Rightarrow>
                        (s', [ProcessSolanaHardwareSignatureCallback False kInternalError
                                ''IDS_WALLET_INTERNAL_ERROR''])
                    | (True, s') \<Rightarrow>
                        (s', [SendSignedSolanaTransaction (chain_id meta1) transaction_bytes
                                (meta_id meta1)])))))"

subsection \<open>Reconciliation of pending transactions\<close>

text \<open>
  \<^verbatim>\<open>UpdatePendingTransactions\<close>. With a chain, the block height of that chain is
  fetched; without, that of every chain with a Submitted transaction, once per chain. The
  member \<^verbatim>\<open>pending_chain_ids_\<close> is a parameter; the manager then tells the block
  tracker which chains are pending.
\<close>

fun query_pending_chains ::
  "SolanaTxMeta list \<Rightarrow> string set \<Rightarrow> effect list \<times> string set" where
  "query_pending_chains [] pending_chain_ids = ([], pending_chain_ids)"
| "query_pending_chains (pending_transaction # rest) pending_chain_ids =
     (if chain_id pending_transaction \<in> pending_chain_ids
      then query_pending_chains rest pending_chain_ids
      else (case query_pending_chains rest
                   (insert (chain_id pending_transaction) pending_chain_ids) of
              (calls, ids) \<Rightarrow>
                (GetSolanaBlockHeightPending (chain_id pending_transaction) # calls, ids)))"

definition UpdatePendingTransactions ::
  "string set \<Rightarrow> string option \<Rightarrow> TxStateManager \<Rightarrow> TxStateManager \<times> effect list" where
  "UpdatePendingTransactions pending_chain_ids_member chain s =
     (case chain of
        Some c \<Rightarrow>
          (s, [GetSolanaBlockHeightPending c,
               CheckIfBlockTrackerShouldRun (insert c pending_chain_ids_member)])
      | None \<Rightarrow>
          (case query_pending_chains (GetTransactionsByStatus None Submitted s) {} of
             (calls, pending_chain_ids) \<Rightarrow>
               (s, calls @ [CheckIfBlockTrackerShouldRun pending_chain_ids])))"

text \<open>\<^verbatim>\<open>OnLatestBlockhashUpdated\<close>, the notification of the block tracker.\<close>

definition OnLatestBlockhashUpdated ::
  "string set \<Rightarrow> string \<Rightarrow> string \<Rightarrow> uint64_t \<Rightarrow> TxStateManager
     \<Rightarrow> TxStateManager \<times> effect list" where
  "OnLatestBlockhashUpdated pending_chain_ids_member chain blockhash height s =
     UpdatePendingTransactions pending_chain_ids_member (Some chain) s"

text \<open>
  \<^verbatim>\<open>OnSendSolanaTransaction\<close>, the continuation of both ways of sending. The hash
  returned by the RPC service is \<open>signature\<close>.
\<close>

definition OnSendSolanaTransaction ::
  "string set \<Rightarrow> Time \<Rightarrow> string \<Rightarrow> string \<Rightarrow> SolanaProviderError \<Rightarrow> string
     \<Rightarrow> TxStateManager \<Rightarrow> TxStateManager \<times> effect list" where
  "OnSendSolanaTransaction pending_chain_ids_member now tx_meta_id signature error
       error_message s =
     (case GetSolanaTx tx_meta_id s of
        None \<Rightarrow>
          (s, [ApproveTransactionCallback False kInternalError
                 ''IDS_BRAVE_WALLET_TRANSACTION_NOT_FOUND''])
      | Some meta \<Rightarrow>
          (let success = (error = kSuccess);
               meta1 = (if success
                        then meta\<lparr>status := Submitted, submitted_time := now,
                                  tx_hash := signature\<rparr>
                        else meta\<lparr>status := Error\<rparr>)
           in (case AddOrUpdateTx meta1 s of
                 (False, s') \<Rightarrow>
                   (s', [ApproveTransactionCallback False kInternalError
                           ''IDS_WALLET_INTERNAL_ERROR''])
               | (True, s') \<Rightarrow>
                   (s', (if success
                         then snd (UpdatePendingTransactions pending_chain_ids_member
                                     (Some (chain_id meta1)) s')
                         else [])
                        @ [ApproveTransactionCallback (error_message = []) error
                             error_message]))))"

definition OnGetBlockHeight ::
  "string \<Rightarrow> uint64_t \<Rightarrow> SolanaProviderError \<Rightarrow> string \<Rightarrow> TxStateManager
     \<Rightarrow> TxStateManager \<times> effect list" where
  "OnGetBlockHeight chain block_height error error_message s =
     (if error \<noteq> kSuccess then (s, [])
      else (let pending_transactions = GetTransactionsByStatus (Some chain) Submitted s;
                tx_meta_ids = map meta_id pending_transactions;
                tx_signatures = map tx_hash pending_transactions
            in (s, [GetSolanaSignatureStatuses chain tx_signatures tx_meta_ids
                      block_height])))"

text \<open>The body of the loop of \<^verbatim>\<open>OnGetSignatureStatuses\<close>, for one id and its status.\<close>

definition update_pending_tx ::
  "Time \<Rightarrow> uint64_t \<Rightarrow> string \<Rightarrow> SolanaSignatureStatus option \<Rightarrow> TxStateManager
     \<Rightarrow> TxStateManager" where
  "update_pending_tx now block_height tx_meta_id signature_status_i s =
     (case GetSolanaTx tx_meta_id s of
        None \<Rightarrow> s
      | Some meta \<Rightarrow>
          (case signature_status_i of
             None \<Rightarrow>
               (if last_valid_block_height (message (tx meta)) \<noteq> 0
                   \<and> last_valid_block_height (message (tx meta)) < block_height
                then snd (AddOrUpdateTx (meta\<lparr>status := Dropped\<rparr>) s)
                else s)
           | Some st \<Rightarrow>
               (if err st \<noteq> []
                then snd (AddOrUpdateTx (meta\<lparr>signature_status := st, status := Error\<rparr>) s)
                else if confirmation_status st \<noteq> []
                then (let meta1 = meta\<lparr>signature_status := st\<rparr>;
                          meta2 = (if confirmation_status st = ''finalized''
                                   then meta1\<lparr>status := Confirmed, confirmed_time := now\<rparr>
                                   else meta1)
                      in snd (AddOrUpdateTx meta2 s))
                else s)))"

function signature_statuses_loop ::
  "nat \<Rightarrow> string list \<Rightarrow> uint64_t \<Rightarrow> SolanaSignatureStatus option list \<Rightarrow> Time
     \<Rightarrow> TxStateManager \<Rightarrow> TxStateManager" where
  "signature_statuses_loop i tx_meta_ids block_height signature_statuses now s =
     (if i < length tx_meta_ids
      then signature_statuses_loop (i + 1) tx_meta_ids block_height signature_statuses now
             (update_pending_tx now block_height (tx_meta_ids ! i) (signature_statuses ! i) s)
      else s)"
  by pat_completeness auto
termination
  by (relation "measure (\<lambda>(i, tx_meta_ids, block_height, signature_statuses, now, s).
                  length tx_meta_ids - i)") auto

declare signature_statuses_loop.simps [simp del]

definition OnGetSignatureStatuses ::
  "string \<Rightarrow> string list \<Rightarrow> uint64_t \<Rightarrow> SolanaSignatureStatus option list
     \<Rightarrow> SolanaProviderError \<Rightarrow> string \<Rightarrow> Time \<Rightarrow> TxStateManager \<Rightarrow> TxStateManager" where
  "OnGetSignatureStatuses chain tx_meta_ids block_height signature_statuses error
       error_message now s =
     (if error \<noteq> kSuccess then s
      else if length tx_meta_ids \<noteq> length signature_statuses then s
      else signature_statuses_loop 0 tx_meta_ids block_height signature_statuses now s)"

subsection \<open>Retry\<close>

text \<open>
  \<^verbatim>\<open>TxMeta::IsRetriable\<close>, \<^verbatim>\<open>SolanaMessage::UsesDurableNonce\<close> and
  \<^verbatim>\<open>TxMeta::GenerateMetaID\<close> are defined in other files: the two predicates and the
  generated id are parameters, as is the current time. A metadata without transaction
  does not occur, so \<^verbatim>\<open>!meta || !meta->tx()\<close> is the test for an unknown id.
\<close>

definition RetryTransaction ::
  "(SolanaTxMeta \<Rightarrow> bool) \<Rightarrow> (SolanaMessage \<Rightarrow> bool) \<Rightarrow> string \<Rightarrow> Time \<Rightarrow> string
     \<Rightarrow> TxStateManager \<Rightarrow> TxStateManager \<times> effect list" where
  "RetryTransaction IsRetriable UsesDurableNonce generated_id now tx_meta_id s =
     (case GetSolanaTx tx_meta_id s of
        None \<Rightarrow>
          (s, [RetryTransactionCallback False [] ''IDS_BRAVE_WALLET_TRANSACTION_NOT_FOUND''])
      | Some meta \<Rightarrow>
          (if \<not> IsRetriable meta
           then (s, [RetryTransactionCallback False []
                       ''IDS_BRAVE_WALLET_TRANSACTION_NOT_RETRIABLE''])
           else (let meta1 = (if \<not> UsesDurableNonce (message (tx meta))
                              then set_sign_tx_param None (set_recent_blockhash [] meta)
                              else meta);
                     meta2 = set_last_valid_block_height 0 meta1;
                     meta3 = meta2\<lparr>meta_id := generated_id,
                                   status := Unapproved,
                                   created_time := now,
                                   submitted_time := 0,
                                   confirmed_time := 0,
                                   tx_hash := [],
                                   signature_status := \<lparr>err = [], confirmation_status = []\<rparr>\<rparr>;
                     meta4 = ClearRawSignatures meta3
                 in (case AddOrUpdateTx meta4 s of
                       (False, s') \<Rightarrow>
                         (s', [RetryTransactionCallback False [] ''IDS_WALLET_INTERNAL_ERROR''])
                     | (True, s') \<Rightarrow>
                         (s', [RetryTransactionCallback True (meta_id meta4) []])))))"

subsection \<open>Fee estimation\<close>

definition GetEstimatedTxFee :: "string \<Rightarrow> TxStateManager \<Rightarrow> TxStateManager \<times> effect list" where
  "GetEstimatedTxFee tx_meta_id s =
     (case GetSolanaTx tx_meta_id s of
        None \<Rightarrow>
          (s, [GetEstimatedTxFeeCallback 0 kInternalError
                 ''IDS_BRAVE_WALLET_TRANSACTION_NOT_FOUND''])
      | Some meta \<Rightarrow> (s, [GetLatestBlockhashForFee (chain_id meta) meta]))"

definition OnGetLatestBlockhashForGetEstimatedTxFee ::
  "SolanaTxMeta \<Rightarrow> string \<Rightarrow> uint64_t \<Rightarrow> SolanaProviderError \<Rightarrow> string
     \<Rightarrow> TxStateManager \<Rightarrow> TxStateManager \<times> effect list" where
  "OnGetLatestBlockhashForGetEstimatedTxFee meta latest_blockhash height error
       error_message s =
     (if error \<noteq> kSuccess
      then (s, [GetEstimatedTxFeeCallback 0 error error_message])
      else (let meta1 = set_recent_blockhash latest_blockhash meta;
                meta2 = set_last_valid_block_height height meta1
            in (s, [GetSolanaFeeForMessage (chain_id meta2) (message (tx meta2))])))"

subsection \<open>Results of approval and retry\<close>

text \<open>
  The metadata \<^verbatim>\<open>OnGetLatestBlockhash\<close> persists: the status, the blockhash and the
  last-valid-block-height are set one after the other on the same object.
\<close>

definition approved_meta :: "string \<Rightarrow> uint64_t \<Rightarrow> SolanaTxMeta \<Rightarrow> SolanaTxMeta" where
  "approved_meta blockhash height meta =
     set_last_valid_block_height height
       (set_recent_blockhash blockhash (meta\<lparr>status := Approved\<rparr>))"

text \<open>The metadata \<^verbatim>\<open>RetryTransaction\<close> persists for a retriable transaction.\<close>

definition retried_meta ::
  "(SolanaMessage \<Rightarrow> bool) \<Rightarrow> string \<Rightarrow> Time \<Rightarrow> SolanaTxMeta \<Rightarrow> SolanaTxMeta" where
  "retried_meta UsesDurableNonce generated_id now meta =
     ClearRawSignatures
       ((set_last_valid_block_height 0
          (if \<not> UsesDurableNonce (message (tx meta))
           then set_sign_tx_param None (set_recent_blockhash [] meta)
           else meta))
        \<lparr>meta_id := generated_id, status := Unapproved, created_time := now,
         submitted_time := 0, confirmed_time := 0, tx_hash := [],
         signature_status := \<lparr>err = [], confirmation_status = []\<rparr>\<rparr>)"

text \<open>
  The invariant of the specification's data model: blockhash and last-valid-block-height
  are set together, one is empty or zero exactly when the other is.
\<close>

definition blockhash_height_invariant :: "SolanaMessage \<Rightarrow> bool" where
  "blockhash_height_invariant m \<longleftrightarrow> (recent_blockhash m = [] \<longleftrightarrow> last_valid_block_height m = 0)"

definition stored_message :: "string \<Rightarrow> TxStateManager \<Rightarrow> SolanaMessage option" where
  "stored_message k s = map_option (\<lambda>m. message (tx m)) (GetSolanaTx k s)"

text \<open>The invariant holds for the message of every transaction of the store.\<close>

definition store_invariant :: "TxStateManager \<Rightarrow> bool" where
  "store_invariant s \<longleftrightarrow>
     (\<forall>m \<in> set (transactions s). blockhash_height_invariant (message (tx m)))"

subsection \<open>Invariants of the store\<close>

text \<open>
  The transaction \<open>k\<close> is stored with a last-valid-block-height of \<open>0\<close> and is not
  Dropped.
\<close>

definition never_dropped :: "string \<Rightarrow> TxStateManager \<Rightarrow> bool" where
  "never_dropped k s \<longleftrightarrow>
     (\<exists>m. GetSolanaTx k s = Some m \<and> last_valid_block_height (message (tx m)) = 0
          \<and> status m \<noteq> Dropped)"

section \<open>The NFT page parser\<close>

text \<open>
  \<^verbatim>\<open>SimpleHashClient::ParseNFTsFromSimpleHash\<close> is declared in
  \<^verbatim>\<open>simple_hash_client.h\<close> and exercised by \<^verbatim>\<open>simple_hash_client_unittest.cc\<close>; its
  body, in \<^verbatim>\<open>simple_hash_client.cc\<close>, is modelled from the specification. A JSON value
  (\<^verbatim>\<open>base::Value\<close>) is a datatype, a dictionary being the list of its entries.
\<close>

datatype json =
    JNull
  | JBool bool
  | JInt int
  | JString string
  | JList "json list"
  | JDict "(string \<times> json) list"

text \<open>
  Modelled from the spec: the next cursor of a page (\<^verbatim>\<open>next_cursor\<close> absent or an
  explicit null gives no cursor).
\<close>

definition next_cursor :: "(string \<times> json) list \<Rightarrow> string option" where
  "next_cursor page =
     (case map_of page ''next_cursor'' of Some (JString c) \<Rightarrow> Some c | _ \<Rightarrow> None)"

text \<open>
  Modelled from the spec: the spam score of one element of \<^verbatim>\<open>nfts\<close>, nested in its
  \<^verbatim>\<open>collection\<close> object; \<open>None\<close> when the object or the score is missing.
\<close>

definition spam_score :: "(string \<times> json) list \<Rightarrow> int option" where
  "spam_score nft =
     (case map_of nft ''collection'' of
        Some (JDict collection) \<Rightarrow>
          (case map_of collection ''spam_score'' of Some (JInt n) \<Rightarrow> Some n | _ \<Rightarrow> None)
      | _ \<Rightarrow> None)"

text \<open>
  Modelled from the spec: parsing one element. A record that misses a required field,
  the spam score among them, is dropped; a record is spam when its score is positive
  (the unit test's \<^verbatim>\<open>spam_score > 0\<close>); \<open>skip_spam\<close> skips the spam records and
  \<open>only_spam\<close> the others. The extraction of the remaining fields (chain slug, contract
  address, token id, contract type) into a token is the parameter \<open>parse_fields\<close>.
\<close>

definition parse_nft ::
  "((string \<times> json) list \<Rightarrow> 'token option) \<Rightarrow> bool \<Rightarrow> bool \<Rightarrow> json \<Rightarrow> 'token option" where
  "parse_nft parse_fields skip_spam only_spam v =
     (case v of
        JDict nft \<Rightarrow>
          (case spam_score nft of
             None \<Rightarrow> None
           | Some score \<Rightarrow>
               (if skip_spam \<and> 0 < score then None
                else if only_spam \<and> score \<le> 0 then None
                else parse_fields nft))
      | _ \<Rightarrow> None)"

text \<open>
  Modelled from the spec: \<^verbatim>\<open>ParseNFTsFromSimpleHash\<close>. Both flags set is a caller error
  and yields no result; the top level must be an object with an array field \<^verbatim>\<open>nfts\<close>;
  the records that parse are returned in the order of the page.
\<close>

definition ParseNFTsFromSimpleHash ::
  "((string \<times> json) list \<Rightarrow> 'token option) \<Rightarrow> json \<Rightarrow> bool \<Rightarrow> bool
     \<Rightarrow> (string option \<times> 'token list) option" where
  "ParseNFTsFromSimpleHash parse_fields json_value skip_spam only_spam =
     (if skip_spam \<and> only_spam then None
      else (case json_value of
              JDict page \<Rightarrow>
                (case map_of page ''nfts'' of
                   Some (JList nfts) \<Rightarrow>
                     Some (next_cursor page,
                           List.map_filter (parse_nft parse_fields skip_spam only_spam) nfts)
                 | _ \<Rightarrow> None)
            | _ \<Rightarrow> None))"

section \<open>Sample data\<close>

text \<open>A transaction on chain \<open>0x65\<close> and a store that accepts writes.\<close>

definition demo_meta :: "string \<Rightarrow> TransactionStatus \<Rightarrow> string \<Rightarrow> uint64_t \<Rightarrow> SolanaTxMeta" where
  "demo_meta k st blockhash height =
     \<lparr>meta_id = k, status = st, chain_id = ''0x65'', created_time = 1, submitted_time = 2,
      confirmed_time = 0, tx_hash = ''sig'',
      signature_status = \<lparr>err = [], confirmation_status = ''processed''\<rparr>,
      tx = \<lparr>message = \<lparr>recent_blockhash = blockhash, last_valid_block_height = height,
                         fee_payer = ''payer'', instructions = []\<rparr>,
            sign_tx_param = Some ''param'', raw_signatures = [[1]]\<rparr>\<rparr>"

definition demo_store :: "SolanaTxMeta list \<Rightarrow> TxStateManager" where
  "demo_store ms = \<lparr>transactions = ms, accepts_writes = True\<rparr>"

text \<open>
  Sample collaborators: a transaction is retriable when its status is Error or Dropped,
  and a message uses a durable nonce when it carries an instruction; the second
  transaction carries one (the system program's advance-nonce instruction).
\<close>

definition demo_IsRetriable :: "SolanaTxMeta \<Rightarrow> bool" where
  "demo_IsRetriable meta \<longleftrightarrow> status meta = Error \<or> status meta = Dropped"

definition demo_UsesDurableNonce :: "SolanaMessage \<Rightarrow> bool" where
  "demo_UsesDurableNonce m \<longleftrightarrow> instructions m \<noteq> []"

definition demo_nonce_meta :: "string \<Rightarrow> TransactionStatus \<Rightarrow> string \<Rightarrow> uint64_t \<Rightarrow> SolanaTxMeta" where
  "demo_nonce_meta k st blockhash height =
     set_recent_blockhash blockhash
       ((demo_meta k st blockhash height)
          \<lparr>tx := \<lparr>message = \<lparr>recent_blockhash = blockhash, last_valid_block_height = height,
                         fee_payer = ''payer'',
                         instructions = [\<lparr>program_id = kSolanaSystemProgramId, accounts = [],
                                          data = [4, 0, 0, 0]\<rparr>]\<rparr>,
            sign_tx_param = Some ''param'', raw_signatures = [[1]]\<rparr>\<rparr>)"

text \<open>The transaction \<open>b\<close> that a retry at time \<open>9\<close> stores.\<close>

definition demo_retried :: "string \<Rightarrow> SolanaTxMeta" where
  "demo_retried blockhash =
     \<lparr>meta_id = ''b'', status = Unapproved, chain_id = ''0x65'', created_time = 9,
      submitted_time = 0, confirmed_time = 0, tx_hash = [],
      signature_status = \<lparr>err = [], confirmation_status = []\<rparr>,
      tx = \<lparr>message = \<lparr>recent_blockhash = blockhash, last_valid_block_height = 0,
                         fee_payer = ''payer'', instructions = []\<rparr>,
            sign_tx_param = None, raw_signatures = []\<rparr>\<rparr>"

text \<open>
  Sample codecs. A buffer of zero bytes is, in Base58, the string of as many characters
  \<open>1\<close>; the samples encode, parse and decode these and nothing else.
\<close>

definition demo_Base58Encode :: "byte list \<Rightarrow> string" where
  "demo_Base58Encode bytes =
     (if set bytes \<subseteq> {0} then replicate (length bytes) CHR ''1'' else ''?'')"

definition demo_FromBase58 :: "string \<Rightarrow> byte list option" where
  "demo_FromBase58 s = (if s = replicate 32 CHR ''1'' then Some (replicate 32 0) else None)"

text \<open>
  A tree account with \<^verbatim>\<open>max_buffer_size = 64\<close>, \<^verbatim>\<open>max_depth = 14\<close> and a zero
  authority, followed by \<open>k\<close> zero bytes.
\<close>

definition demo_tree_account :: "nat \<Rightarrow> byte list" where
  "demo_tree_account k =
     [1, 0, 64, 0, 0, 0, 14, 0, 0, 0] @ replicate 32 0 @ replicate k 0"


text \<open>The sample library logarithm is the correctly rounded one.\<close>

definition demo_log2 :: "real \<Rightarrow> real" where
  "demo_log2 x = round_double (log 2 x)"

definition demo_Base58Decode :: "string \<Rightarrow> nat \<Rightarrow> byte list option" where
  "demo_Base58Decode s len =
     (if s = replicate len CHR ''1'' then Some (replicate len 0) else None)"

text \<open>A proof with the leaf index 1316261, and the instruction built from it.\<close>

definition demo_proof :: "string list \<Rightarrow> uint64_t \<Rightarrow> SolCompressedNftProofData" where
  "demo_proof path depth =
     \<lparr>root = replicate 32 CHR ''1'', data_hash = replicate 32 CHR ''1'',
      creator_hash = replicate 32 CHR ''1'', owner = ''owner'', proof_path = path,
      merkle_tree = ''tree'', delegate = ''delegate'', leaf_index = 1316261,
      canopy_depth = depth\<rparr>"

definition demo_instruction :: "string list \<Rightarrow> SolanaInstruction" where
  "demo_instruction trailing =
     \<lparr>program_id = kSolanaBubbleGumProgramId,
      accounts =
        [AccountMeta ''authority'' None False False,
         AccountMeta ''owner'' None False False,
         AccountMeta ''owner'' None False False,
         AccountMeta ''new owner'' None False False,
         AccountMeta ''tree'' None False True,
         AccountMeta log_wrapper None False False,
         AccountMeta compression_program None False False,
         AccountMeta kSolanaSystemProgramId None False False]
        @ map (\<lambda>k. AccountMeta k None False False) trailing,
      data = [163, 52, 200, 231, 140, 3, 69, 186]
             @ replicate 32 0 @ replicate 32 0 @ replicate 32 0
             @ [165, 21, 20, 0, 0, 0, 0, 0] @ [165, 21, 20, 0]\<rparr>"

text \<open>
  A page with a spam and a non-spam record, after the unit test of the parser; the sample
  field extraction returns the contract address.
\<close>

definition demo_parse_fields :: "(string \<times> json) list \<Rightarrow> string option" where
  "demo_parse_fields nft =
     (case map_of nft ''contract_address'' of Some (JString a) \<Rightarrow> Some a | _ \<Rightarrow> None)"

definition demo_nft :: "string \<Rightarrow> int \<Rightarrow> json" where
  "demo_nft address score =
     JDict [(''chain'', JString ''solana''), (''contract_address'', JString address),
            (''token_id'', JNull), (''contract'', JDict [(''type'', JString ''NonFungible'')]),
            (''collection'', JDict [(''spam_score'', JInt score)])]"

definition demo_page :: json where
  "demo_page =
     JDict [(''next'', JNull), (''previous'', JNull),
            (''nfts'', JList [demo_nft ''AvdAUsR4qgsT5HgyKCVeGjimmyu8xrG3RudFqm5txDDE'' 100,
                              demo_nft ''BHWBJ7XtBqJJbg9SrAUH4moeF8VpJo3WXyDh6vc1qqLG'' 0])]"

chapter \<open>Properties\<close>

section \<open>The Merkle-tree decoder\<close>

lemma unat_vec_size: "length v < 2 ^ 64 \<Longrightarrow> unat (vec_size v) = length v"
  by (simp add: vec_size_def unat_of_nat)

lemma reader_guard:
  assumes "length v < 2 ^ 64" "0 < k"
  shows "(vec_size v \<le> off \<or> vec_size v - off < k) \<longleftrightarrow> length v < unat off + unat k"
proof (cases "vec_size v \<le> off")
  case True
  then have "length v \<le> unat off"
    using assms(1) by (simp add: word_le_nat_alt unat_vec_size)
  moreover have "0 < unat k" using assms(2) by (simp add: word_less_nat_alt)
  ultimately show ?thesis using True by simp
next
  case False
  then have lt: "off < vec_size v" by simp
  then have "unat (vec_size v - off) = length v - unat off"
    using assms(1) by (simp add: unat_sub unat_vec_size)
  moreover have "unat off < length v"
    using lt assms(1) by (simp add: word_less_nat_alt unat_vec_size)
  ultimately show ?thesis using False by (auto simp: word_less_nat_alt)
qed

lemma DecodeUint8_eq:
  "length v < 2 ^ 64 \<Longrightarrow>
   DecodeUint8 v off = (if length v < unat off + 1 then None else Some (v ! unat off, off + 1))"
  using reader_guard [of v 1 off] by (simp add: DecodeUint8_def)

lemma DecodeUint32_eq:
  "length v < 2 ^ 64 \<Longrightarrow>
   DecodeUint32 v off =
     (if length v < unat off + 4 then None
      else Some (uint32_le (v ! unat off) (v ! unat (off + 1)) (v ! unat (off + 2))
                   (v ! unat (off + 3)), off + 4))"
  using reader_guard [of v 4 off] by (simp add: DecodeUint32_def)

lemma DecodePublicKey_eq:
  "length v < 2 ^ 64 \<Longrightarrow>
   DecodePublicKey encode v off =
     (if length v < unat off + 32 then None
      else Some (encode (take 32 (drop (unat off) v)), off + 32))"
  using reader_guard [of v 32 off] by (simp add: DecodePublicKey_def kSolanaPubkeySize_def)

lemma Decode_eq:
  assumes "length v < 2 ^ 64"
  shows "DecodeMerkleTreeAuthorityAndDepth log2_double encode parse_address v =
     (if length v < 42 \<or> v ! 0 \<noteq> 1 \<or> v ! 1 \<noteq> 0 then None
      else case parse_address (encode (take 32 (drop 10 v))) of
             None \<Rightarrow> None
           | Some a \<Rightarrow>
               Some (canopy_depth_of log2_double
                       (vec_size v
                          - tree_end_offset (header_max_buffer_size v) (header_max_depth v) 42),
                     a))"
  using assms
  by (simp add: DecodeMerkleTreeAuthorityAndDepth_def DecodeUint8_eq DecodeUint32_eq
      DecodePublicKey_eq header_max_buffer_size_def header_max_depth_def Let_def
      split: option.splits)

lemma skip_change_logs_eq:
  "skip_change_logs i mbs md off
     = off + of_nat (unat mbs - i) * ucast (change_log_size md)"
proof (induction i mbs md off rule: skip_change_logs.induct)
  case (1 i mbs md off)
  show ?case
  proof (cases "i < unat mbs")
    case True
    then have "unat mbs - i = Suc (unat mbs - (i + 1))" by simp
    with True 1 show ?thesis
      by (subst skip_change_logs.simps) (simp add: algebra_simps)
  next
    case False
    then show ?thesis by (subst skip_change_logs.simps) simp
  qed
qed




subsection \<open>The decoder's sizes and the layout of the account\<close>





subsection \<open>Rounding to a double\<close>

lemma round_half_even_of_int [simp]: "round_half_even (of_int z) = z"
  by (simp add: round_half_even_def)

lemma round_half_even_ge: "\<lfloor>r\<rfloor> \<le> round_half_even r"
  by (simp add: round_half_even_def)

lemma round_half_even_le: "round_half_even r \<le> \<lceil>r\<rceil>"
  unfolding round_half_even_def by (auto simp: ceiling_altdef)

lemma round_double_unfold:
  assumes "0 < x"
  shows "round_double x
     = round_half_even (x * 2 powr (52 - of_int \<lfloor>log 2 x\<rfloor>))
         / 2 powr (52 - of_int \<lfloor>log 2 x\<rfloor>)"
proof -
  have "(2::real) powr (of_int \<lfloor>log 2 x\<rfloor> - 52) = 1 / 2 powr (52 - of_int \<lfloor>log 2 x\<rfloor>)"
    by (simp add: powr_diff)
  then show ?thesis
    using assms by (simp add: round_double_def Let_def)
qed

lemma round_double_ge:
  assumes "0 < x" "g \<le> x" "g * 2 powr (52 - of_int \<lfloor>log 2 x\<rfloor>) = of_int z"
  shows "g \<le> round_double x"
proof -
  let ?p = "(2::real) powr (52 - of_int \<lfloor>log 2 x\<rfloor>)"
  have p: "0 < ?p" by simp
  have "of_int z \<le> x * ?p" using assms(2,3) p by (metis mult_right_mono less_imp_le)
  then have "z \<le> \<lfloor>x * ?p\<rfloor>" by (simp add: le_floor_iff)
  also have "\<dots> \<le> round_half_even (x * ?p)" by (rule round_half_even_ge)
  finally have "g * ?p \<le> of_int (round_half_even (x * ?p))" using assms(3) by simp
  then have "g \<le> of_int (round_half_even (x * ?p)) / ?p"
    using p by (simp add: pos_le_divide_eq)
  then show ?thesis by (simp only: round_double_unfold [OF assms(1)])
qed

lemma round_double_le:
  assumes "0 < x" "x \<le> g" "g * 2 powr (52 - of_int \<lfloor>log 2 x\<rfloor>) = of_int z"
  shows "round_double x \<le> g"
proof -
  let ?p = "(2::real) powr (52 - of_int \<lfloor>log 2 x\<rfloor>)"
  have p: "0 < ?p" by simp
  have "x * ?p \<le> of_int z" using assms(2,3) p by (metis mult_right_mono less_imp_le)
  then have "\<lceil>x * ?p\<rceil> \<le> z" by (simp add: ceiling_le_iff)
  with round_half_even_le [of "x * ?p"] have "round_half_even (x * ?p) \<le> z" by simp
  then have "of_int (round_half_even (x * ?p)) \<le> g * ?p" using assms(3) by simp
  then have "of_int (round_half_even (x * ?p)) / ?p \<le> g"
    using p by (simp add: pos_divide_le_eq)
  then show ?thesis by (simp only: round_double_unfold [OF assms(1)])
qed

lemma round_double_exact:
  assumes "0 < x" "x * 2 powr (52 - of_int \<lfloor>log 2 x\<rfloor>) = of_int z"
  shows "round_double x = x"
  using round_double_ge [OF assms(1) order_refl assms(2)]
    round_double_le [OF assms(1) order_refl assms(2)] by simp

text \<open>
  A multiple \<open>g\<close> of \<open>2 ^ - j\<close> lies on the grid of the doubles around any positive
  \<open>x < 2 ^ b\<close> with \<open>b + j \<le> 53\<close>.
\<close>

lemma dyadic_scaled:
  assumes "0 < x" "x < 2 ^ b" "b + j \<le> 53" "(g::real) * 2 ^ j = of_int m"
  shows "\<exists>z. g * 2 powr (52 - of_int \<lfloor>log 2 x\<rfloor>) = of_int z"
proof -
  define e where "e = \<lfloor>log 2 x\<rfloor>"
  have "log 2 x < real b"
    using assms(1,2) by (simp add: log_less_iff powr_realpow)
  then have "e < int b" by (simp add: e_def floor_less_iff)
  then have e: "int j \<le> 52 - e" using assms(3) by simp
  define d where "d = nat (52 - e) - j"
  have "52 - e = int (j + d)" using e by (simp add: d_def)
  then have "52 - real_of_int e = real (j + d)"
    by (metis of_int_diff of_int_numeral of_int_of_nat_eq)
  then have "(2::real) powr (52 - of_int e) = 2 ^ (j + d)"
    by (simp only: powr_realpow zero_less_numeral)
  then have "g * 2 powr (52 - of_int e) = (g * 2 ^ j) * 2 ^ d"
    by (simp add: power_add)
  also have "\<dots> = of_int (m * 2 ^ d)" by (simp add: assms(4))
  finally show ?thesis unfolding e_def by blast
qed

lemma round_double_dyadic:
  assumes "0 < x" "x < 2 ^ b" "b + j \<le> 53" "x * 2 ^ j = of_int m"
  shows "round_double x = x"
  using dyadic_scaled [OF assms] round_double_exact [OF assms(1)] by blast


subsection \<open>The binary logarithm next to a power of two\<close>


lemma log2_one_minus:
  assumes "0 \<le> s" "s < 1"
  shows "log 2 (1 - s) \<le> - s"
proof -
  have l: "ln (1 - s) \<le> - s" using assms by (rule ln_one_minus_pos_upper_bound)
  have "0 < ln (2::real)" "ln (2::real) \<le> 1" using ln_2_less_1 by simp_all
  moreover have n: "ln (1 - s) \<le> 0" using l assms(1) by simp
  ultimately have "ln (1 - s) * 1 \<le> ln (1 - s) * ln 2"
    by (intro mult_left_mono_neg) simp_all
  then have "ln (1 - s) / ln 2 \<le> ln (1 - s)"
    using \<open>0 < ln (2::real)\<close> by (simp add: pos_divide_le_eq)
  with l show ?thesis by (simp add: log_def)
qed





subsection \<open>The canopy depth\<close>






text \<open>
  With \<open>2 ^ 64 - 31758\<close> canopy bytes, which is what a wrapped subtraction leaves of a
  buffer of 42 bytes, the length becomes \<open>2 ^ 64 - 32768\<close> as a double, the sum
  \<open>2 ^ 59 - 1024\<close>, and its logarithm is so close to 59 that it is rounded to 59: the
  canopy depth is 58.
\<close>

lemma round_double_wrapped_length: "round_double 18446744073709519858 = 18446744073709518848"
proof -
  have e: "\<lfloor>log 2 (18446744073709519858 :: real)\<rfloor> = 63"
    by (simp add: floor_log_eq_powr_iff)
  have q: "(2::real) powr - 11 = 1 / 2048"
    by (simp add: powr_minus_divide)
  show ?thesis
    by (simp add: round_double_unfold round_half_even_def e q)
qed

lemma round_double_wrapped_quotient: "round_double 576460752303422464 = 576460752303422464"
proof -
  have e: "\<lfloor>log 2 (576460752303422464 :: real)\<rfloor> = 58"
    by (simp add: floor_log_eq_powr_iff)
  have q: "(2::real) powr - 6 = 1 / 64"
    by (simp add: powr_minus_divide)
  show ?thesis
    by (simp add: round_double_unfold round_half_even_def e q)
qed

lemma round_double_wrapped_sum: "round_double 576460752303422466 = 576460752303422464"
proof -
  have e: "\<lfloor>log 2 (576460752303422466 :: real)\<rfloor> = 58"
    by (simp add: floor_log_eq_powr_iff)
  have q: "(2::real) powr - 6 = 1 / 64"
    by (simp add: powr_minus_divide)
  show ?thesis
    by (simp add: round_double_unfold round_half_even_def e q)
qed

lemma ln_2_ge: "7 / 12 \<le> ln (2::real)"
proof -
  have a: "ln (1 - 1 / 4 :: real) \<le> - (1 / 4)" by (rule ln_one_minus_pos_upper_bound) simp_all
  have b: "ln (1 - 1 / 3 :: real) \<le> - (1 / 3)" by (rule ln_one_minus_pos_upper_bound) simp_all
  have "ln ((3 / 4) * (2 / 3) :: real) = ln (3 / 4) + ln (2 / 3)"
    by (subst ln_mult) simp_all
  then have "ln (1 / 2 :: real) \<le> - (7 / 12)" using a b by simp
  moreover have "ln (1 / 2 :: real) = - ln 2" by (simp add: ln_div)
  ultimately show ?thesis by simp
qed

lemma log2_below_59:
  "59 - 1 / 2 ^ 48 < log 2 576460752303422464" "log 2 576460752303422464 < (59 :: real)"
proof -
  define t :: real where "t = 1 / 2 ^ 49"
  have t: "0 < t" "t \<le> 1 / 2" "t < 1" by (simp_all add: t_def)
  have x: "(576460752303422464 :: real) = 2 ^ 59 * (1 - t)" by (simp add: t_def)
  have "log 2 576460752303422464 = log 2 (2 ^ 59 * (1 - t))"
    by (subst x) (rule refl)
  also have "\<dots> = log 2 (2 ^ 59) + log 2 (1 - t)"
    using t by (subst log_mult) simp_all
  also have "log 2 ((2::real) ^ 59) = real 59" by (rule log_pow_cancel) simp_all
  finally have y: "log 2 576460752303422464 = 59 + log 2 (1 - t)" by simp
  have "log 2 (1 - t) \<le> - t" using t by (intro log2_one_minus) simp_all
  with t(1) y show "log 2 576460752303422464 < (59 :: real)" by simp
  have l: "- t - 2 * t\<^sup>2 \<le> ln (1 - t)"
    using t by (intro ln_one_minus_pos_lower_bound) simp_all
  have "t\<^sup>2 \<le> t * (1 / 2 ^ 49)" by (simp add: t_def power2_eq_square)
  then have n: "- (t * (1 + 1 / 2 ^ 48)) \<le> ln (1 - t)" using l by (simp add: algebra_simps)
  have p: "0 < ln (2::real)" by simp
  have "- (2 * t) * ln 2 < - (t * (1 + 1 / 2 ^ 48))"
  proof -
    have "t * (1 + 1 / 2 ^ 48) < t * (2 * (7 / 12))" using t(1) by simp
    also have "\<dots> \<le> t * (2 * ln 2)" using t(1) ln_2_ge by simp
    finally show ?thesis by simp
  qed
  with n have "- (2 * t) * ln 2 < ln (1 - t)" by simp
  then have "- (2 * t) < ln (1 - t) / ln 2" using p by (simp add: pos_less_divide_eq)
  then have "- (1 / 2 ^ 48) < log 2 (1 - t)" by (simp add: log_def t_def)
  with y show "59 - 1 / 2 ^ 48 < log 2 576460752303422464" by simp
qed

lemma demo_log2_59: "demo_log2 576460752303422464 = 59"
proof -
  define y :: real where "y = log 2 576460752303422464"
  have y: "59 - 1 / 2 ^ 48 < y" "y < 59" using log2_below_59 by (simp_all add: y_def)
  then have e: "\<lfloor>log 2 y\<rfloor> = 5"
    by (simp add: floor_log_eq_powr_iff)
  define z where "z = y * 2 powr (52 - of_int \<lfloor>log 2 y\<rfloor>)"
  have "z = y * 2 ^ 47" by (simp add: z_def e)
  with y have z: "59 * 2 ^ 47 - 1 / 2 < z" "z < 59 * 2 ^ 47" by simp_all
  then have f: "\<lfloor>z\<rfloor> = 59 * 2 ^ 47 - 1" by (simp add: floor_eq_iff)
  have r: "round_half_even z = 59 * 2 ^ 47"
    using z unfolding round_half_even_def f by simp
  have "0 < y" using y by simp
  then have "round_double y = of_int (round_half_even z) / 2 powr (52 - of_int \<lfloor>log 2 y\<rfloor>)"
    unfolding z_def by (rule round_double_unfold)
  then have "round_double y = 59" by (simp add: r e)
  then show ?thesis by (simp add: demo_log2_def y_def)
qed

lemma canopy_depth_of_header_alone:
  "canopy_depth_of demo_log2 18446744073709519858 = 58"
proof -
  have d: "round_double (58 :: real) = 58"
    by (rule round_double_dyadic [where b = 6 and j = 0 and m = 58]) simp_all
  show ?thesis
    by (simp add: canopy_depth_of_def round_double_wrapped_length round_double_wrapped_quotient round_double_wrapped_sum demo_log2_59 d double_to_uint32_def)
qed

text \<open>A short buffer, a wrong account type or a wrong version is rejected.\<close>

lemma malformed_header_rejected:
  "length v < 2 ^ 64 \<Longrightarrow> length v < 42 \<or> v ! 0 \<noteq> 1 \<or> v ! 1 \<noteq> 0 \<Longrightarrow>
   DecodeMerkleTreeAuthorityAndDepth log2_double encode parse_address v = None"
  by (simp add: Decode_eq)

lemmas decode_eval = Decode_eq header_max_buffer_size_def header_max_depth_def uint32_le_def
  tree_end_offset_def skip_change_logs_eq change_log_size_def rightmost_path_size_def
  vec_size_def demo_tree_account_def demo_Base58Encode_def demo_FromBase58_def


text \<open>
  Claim C1 fails on the code: the bounds are checked for the two tag bytes, the two
  \<^verbatim>\<open>uint32\<close> fields and the authority key only. Once these 42 bytes are read, nothing
  is compared with the length of the buffer any more, so a buffer that holds a well-formed
  header and stops before the ring buffer or the rightmost path is decoded, not rejected.
\<close>

theorem header_alone_is_decoded:
  "length v < 2 ^ 64 \<Longrightarrow> 42 \<le> length v \<Longrightarrow> v ! 0 = 1 \<Longrightarrow> v ! 1 = 0 \<Longrightarrow>
   parse_address (encode (take 32 (drop 10 v))) = Some a \<Longrightarrow>
   \<exists>depth. DecodeMerkleTreeAuthorityAndDepth log2_double encode parse_address v
            = Some (depth, a)"
  by (simp add: Decode_eq)

text \<open>
  The 42 bytes of the header alone: the ring buffer and the rightmost path would end at
  offset 31800, the buffer has 42 bytes, the subtraction \<^verbatim>\<open>data.size() - offset\<close> wraps
  around to \<open>2 ^ 64 - 31758\<close>, and the decoder returns the authority, with the canopy
  depth 58.
\<close>

theorem header_alone_is_decoded_witness:
  "length (demo_tree_account 0) = 42
   \<and> tree_bytes (header_max_buffer_size (demo_tree_account 0))
         (header_max_depth (demo_tree_account 0)) = 31800
   \<and> vec_size (demo_tree_account 0) - tree_end_offset 64 14 42 = 18446744073709519858
   \<and> demo_FromBase58 (demo_Base58Encode (take 32 (drop 10 (demo_tree_account 0))))
       = Some (replicate 32 0)
   \<and> map_option snd
         (DecodeMerkleTreeAuthorityAndDepth demo_log2 demo_Base58Encode demo_FromBase58
            (demo_tree_account 0))
       = Some (replicate 32 0)
   \<and> DecodeMerkleTreeAuthorityAndDepth demo_log2 demo_Base58Encode demo_FromBase58
         (demo_tree_account 0) = Some (58, replicate 32 0)"
proof -
  let ?v = "demo_tree_account 0"
  have l: "length ?v < 2 ^ 64" "42 \<le> length ?v" and h: "?v ! 0 = 1" "?v ! 1 = 0"
    and a: "demo_FromBase58 (demo_Base58Encode (take 32 (drop 10 ?v))) = Some (replicate 32 0)"
    by (simp_all add: demo_tree_account_def demo_Base58Encode_def demo_FromBase58_def)
  have t: "tree_bytes (header_max_buffer_size ?v) (header_max_depth ?v) = 31800"
    by (simp add: tree_bytes_def change_log_size_def rightmost_path_size_def
        header_max_buffer_size_def header_max_depth_def uint32_le_def demo_tree_account_def)
  have u: "vec_size ?v - tree_end_offset 64 14 42 = 18446744073709519858"
    by (simp add: vec_size_def tree_end_offset_def skip_change_logs_eq change_log_size_def
        rightmost_path_size_def demo_tree_account_def)
  have n: "(- 31758 :: size_t) = 18446744073709519858" by simp
  have d: "DecodeMerkleTreeAuthorityAndDepth demo_log2 demo_Base58Encode demo_FromBase58
         ?v = Some (58, replicate 32 0)"
    by (simp add: decode_eval n canopy_depth_of_header_alone)
  show ?thesis
    using a t u d
      header_alone_is_decoded
        [where log2_double = demo_log2 and encode = demo_Base58Encode
           and parse_address = demo_FromBase58, OF l h a]
    by (auto simp: demo_tree_account_def)
qed




section \<open>The bubblegum-program transfer\<close>

lemma upt8: "[0..<8] = [0, 1, 2, 3, 4, 5, 6, 7]"
  by (simp add: upt_rec)

lemma upt4: "[0..<4] = [0, 1, 2, 3]"
  by (simp add: upt_rec)

lemma UintToLEBytes_64:
  "UintToLEBytes (x :: uint64_t) =
     [ucast x, ucast (drop_bit 8 x), ucast (drop_bit 16 x), ucast (drop_bit 24 x),
      ucast (drop_bit 32 x), ucast (drop_bit 40 x), ucast (drop_bit 48 x),
      ucast (drop_bit 56 x)]"
  by (simp add: UintToLEBytes_def upt8)

lemma UintToLEBytes_32:
  "UintToLEBytes (x :: uint32_t) =
     [ucast x, ucast (drop_bit 8 x), ucast (drop_bit 16 x), ucast (drop_bit 24 x)]"
  by (simp add: UintToLEBytes_def upt4)

lemma length_UintToLEBytes: "length (UintToLEBytes (x :: 'a::len word)) = LENGTH('a) div 8"
  by (simp add: UintToLEBytes_def)

lemma add_proof_accounts_eq:
  "add_proof_accounts path e i acc =
     (if unat e \<le> i then Inr acc
      else if unat e \<le> length path
      then Inr (acc @ map proof_account (drop i (take (unat e) path)))
      else Inl OutOfBoundsRead)"
proof (induction path e i acc rule: add_proof_accounts.induct)
  case (1 path e i acc)
  show ?case
  proof (cases "i < unat e")
    case False
    then show ?thesis by (subst add_proof_accounts.simps) simp
  next
    case True
    show ?thesis
    proof (cases "i < length path")
      case False
      with True show ?thesis by (subst add_proof_accounts.simps) simp
    next
      case l: True
      have step: "unat e \<le> length path \<Longrightarrow>
          drop i (take (unat e) path) = path ! i # drop (i + 1) (take (unat e) path)"
        using True l by (simp add: Cons_nth_drop_Suc [symmetric])
      show ?thesis
        using True l 1 step
        by (subst add_proof_accounts.simps) (auto simp: proof_account_def)
    qed
  qed
qed

lemma unat_end_index:
  assumes "length path < 2 ^ 64"
  shows "unat cd \<le> length path \<Longrightarrow> unat (vec_size path - cd) = length path - unat cd"
    and "length path < unat cd \<Longrightarrow> length path < unat (vec_size path - cd)"
proof -
  have lt: "unat cd < 2 ^ 64" using unsigned_less [of cd, where 'a = nat] by simp
  have u: "unat (vec_size path - cd)
     = (if unat cd \<le> length path then length path - unat cd
        else length path + 2 ^ 64 - unat cd)"
    using assms by (simp add: unat_sub_if' vec_size_def unat_of_nat)
  show "unat cd \<le> length path \<Longrightarrow> unat (vec_size path - cd) = length path - unat cd"
    by (simp add: u)
  show "length path < unat cd \<Longrightarrow> length path < unat (vec_size path - cd)"
    using lt by (simp add: u)
qed

lemma Transfer_eq:
  assumes "length (proof_path proof_data) < 2 ^ 64"
  shows "bubblegum_program_Transfer decode cd ta nlo proof_data =
     (case decode (root proof_data) 32 of
        None \<Rightarrow> Inr None
      | Some r \<Rightarrow>
          (case decode (data_hash proof_data) 32 of
             None \<Rightarrow> Inr None
           | Some d \<Rightarrow>
               (case decode (creator_hash proof_data) 32 of
                  None \<Rightarrow> Inr None
                | Some c \<Rightarrow>
                    if unat (canopy_depth proof_data) \<le> length (proof_path proof_data)
                    then Inr (Some \<lparr>program_id = kSolanaBubbleGumProgramId,
                           accounts = transfer_accounts ta nlo proof_data
                             @ map proof_account
                                 (take (length (proof_path proof_data) - unat (canopy_depth proof_data))
                                    (proof_path proof_data)),
                           data = transfer_instruction_discriminator @ r @ d @ c
                             @ UintToLEBytes (leaf_index proof_data)
                             @ UintToLEBytes (ucast (leaf_index proof_data) :: uint32_t)\<rparr>)
                    else Inl OutOfBoundsRead)))"
proof (cases "unat (canopy_depth proof_data) \<le> length (proof_path proof_data)")
  case True
  then show ?thesis
    by (simp add: bubblegum_program_Transfer_def add_proof_accounts_eq
        unat_end_index(1) [OF assms] transfer_accounts_def Let_def split: option.splits)
next
  case False
  then have "length (proof_path proof_data) < unat (vec_size (proof_path proof_data) - canopy_depth proof_data)"
    using unat_end_index(2) [OF assms, of "canopy_depth proof_data"] by simp
  with False show ?thesis
    by (simp add: bubblegum_program_Transfer_def add_proof_accounts_eq
        transfer_accounts_def Let_def split: option.splits)
qed

lemmas transfer_eval = Transfer_eq demo_Base58Decode_def demo_proof_def demo_instruction_def
  transfer_accounts_def proof_account_def transfer_instruction_discriminator_def
  UintToLEBytes_64 UintToLEBytes_32 drop_bit_eq_div

text \<open>
  Claim C2 fails on the code: there is no comparison of the canopy depth with the length
  of the proof path. When the three hashes decode, the builder never returns
  \<^verbatim>\<open>std::nullopt\<close>: with the canopy depth of the proof data above the length of the
  proof path, \<^verbatim>\<open>proof.proof.size() - proof.canopy_depth\<close> wraps around and the loop
  reads past the end of the proof path; otherwise an instruction is built, whatever the
  builder's own canopy-depth argument is.
\<close>

theorem transfer_reads_past_proof_path:
  "length (proof_path proof_data) < 2 ^ 64 \<Longrightarrow>
   decode (root proof_data) 32 \<noteq> None \<Longrightarrow> decode (data_hash proof_data) 32 \<noteq> None \<Longrightarrow>
   decode (creator_hash proof_data) 32 \<noteq> None \<Longrightarrow>
   (length (proof_path proof_data) < unat (canopy_depth proof_data) \<longrightarrow>
      bubblegum_program_Transfer decode cd ta nlo proof_data = Inl OutOfBoundsRead)
   \<and> (unat (canopy_depth proof_data) \<le> length (proof_path proof_data) \<longrightarrow>
      (\<exists>instr. bubblegum_program_Transfer decode cd ta nlo proof_data = Inr (Some instr)))"
  by (auto simp: Transfer_eq)

text \<open>
  An empty proof path with canopy depth 1 in the proof data; and the same path with
  canopy depth 0 in the proof data while the builder's argument is 1.
\<close>

theorem transfer_reads_past_proof_path_witness:
  "length (proof_path (demo_proof [] 1)) < unat (canopy_depth (demo_proof [] 1))
   \<and> bubblegum_program_Transfer demo_Base58Decode 1 ''authority'' ''new owner''
         (demo_proof [] 1) = Inl OutOfBoundsRead
   \<and> unat (canopy_depth (demo_proof [] 0)) \<le> length (proof_path (demo_proof [] 0))
   \<and> bubblegum_program_Transfer demo_Base58Decode 1 ''authority'' ''new owner''
         (demo_proof [] 0) = Inr (Some (demo_instruction []))"
proof -
  have h: "length (proof_path (demo_proof [] k)) < 2 ^ 64"
    "demo_Base58Decode (root (demo_proof [] k)) 32 \<noteq> None"
    "demo_Base58Decode (data_hash (demo_proof [] k)) 32 \<noteq> None"
    "demo_Base58Decode (creator_hash (demo_proof [] k)) 32 \<noteq> None" for k
    by (simp_all add: demo_proof_def demo_Base58Decode_def)
  note t = transfer_reads_past_proof_path [where decode = demo_Base58Decode and cd = 1 and ta = "''authority''"
      and nlo = "''new owner''"]
  show ?thesis
    using t [where proof_data = "demo_proof [] 1", OF h] t [where proof_data = "demo_proof [] 0", OF h]
    by (simp add: transfer_eval)
qed

text \<open>
  Claim C6, as the code has it: a successful build yields the discriminator followed by
  the three decoded hashes and the leaf index as \<^verbatim>\<open>u64\<close> and as \<^verbatim>\<open>u32\<close>, least
  significant byte first (108 bytes when each hash decodes to 32 bytes), and after the
  eight fixed accounts the first \<open>len(proof_path) - canopy_depth\<close> nodes of the proof
  path, in order, neither signer nor writable. The canopy depth subtracted is the one
  of the proof data: the builder's canopy-depth argument \<open>cd\<close> is not used.
\<close>

theorem transfer_instruction_layout:
  "length (proof_path proof_data) < 2 ^ 64 \<Longrightarrow>
   bubblegum_program_Transfer decode cd ta nlo proof_data = Inr (Some instr) \<Longrightarrow>
   (\<exists>r d c. decode (root proof_data) 32 = Some r \<and> decode (data_hash proof_data) 32 = Some d
        \<and> decode (creator_hash proof_data) 32 = Some c
        \<and> data instr = [163, 52, 200, 231, 140, 3, 69, 186] @ r @ d @ c
             @ UintToLEBytes (leaf_index proof_data)
             @ UintToLEBytes (ucast (leaf_index proof_data) :: uint32_t)
        \<and> (length r = 32 \<and> length d = 32 \<and> length c = 32
             \<longrightarrow> length (data instr) = 8 + 108))
   \<and> unat (canopy_depth proof_data) \<le> length (proof_path proof_data)
   \<and> accounts instr
       = transfer_accounts ta nlo proof_data
         @ map proof_account
             (take (length (proof_path proof_data) - unat (canopy_depth proof_data)) (proof_path proof_data))
   \<and> length (accounts instr) = 8 + (length (proof_path proof_data) - unat (canopy_depth proof_data))
   \<and> (\<forall>m \<in> set (drop 8 (accounts instr)). \<not> is_signer m \<and> \<not> is_writable m)"
proof -
  assume len: "length (proof_path proof_data) < 2 ^ 64"
    and ok: "bubblegum_program_Transfer decode cd ta nlo proof_data = Inr (Some instr)"
  from ok obtain r d c where decode: "decode (root proof_data) 32 = Some r"
    "decode (data_hash proof_data) 32 = Some d" "decode (creator_hash proof_data) 32 = Some c"
    by (auto simp: Transfer_eq [OF len] split: option.splits)
  from ok decode have cd: "unat (canopy_depth proof_data) \<le> length (proof_path proof_data)"
    by (auto simp: Transfer_eq [OF len] split: if_splits)
  from ok decode cd have instr: "instr = \<lparr>program_id = kSolanaBubbleGumProgramId,
       accounts = transfer_accounts ta nlo proof_data
         @ map proof_account
             (take (length (proof_path proof_data) - unat (canopy_depth proof_data)) (proof_path proof_data)),
       data = transfer_instruction_discriminator @ r @ d @ c
         @ UintToLEBytes (leaf_index proof_data)
         @ UintToLEBytes (ucast (leaf_index proof_data) :: uint32_t)\<rparr>"
    by (simp add: Transfer_eq [OF len])
  have l8: "length (transfer_accounts ta nlo proof_data) = 8"
    by (simp add: transfer_accounts_def)
  have 1: "\<exists>r d c. decode (root proof_data) 32 = Some r \<and> decode (data_hash proof_data) 32 = Some d
        \<and> decode (creator_hash proof_data) 32 = Some c
        \<and> data instr = [163, 52, 200, 231, 140, 3, 69, 186] @ r @ d @ c
             @ UintToLEBytes (leaf_index proof_data)
             @ UintToLEBytes (ucast (leaf_index proof_data) :: uint32_t)
        \<and> (length r = 32 \<and> length d = 32 \<and> length c = 32
             \<longrightarrow> length (data instr) = 8 + 108)"
    using decode
    by (simp add: instr transfer_instruction_discriminator_def length_UintToLEBytes)
  have 2: "\<forall>m \<in> set (drop 8 (accounts instr)). \<not> is_signer m \<and> \<not> is_writable m"
    using l8 by (auto simp: instr proof_account_def AccountMeta_def)
  show ?thesis
    using 1 2 cd l8 by (simp add: instr)
qed

text \<open>
  The builder's argument is 1 and the proof path has one node, so the claim asks for no
  trailing account; the canopy depth of the proof data is 0 and the node is appended.
\<close>

theorem transfer_instruction_layout_witness:
  "length (proof_path (demo_proof [''node''] 0)) < 2 ^ 64
   \<and> bubblegum_program_Transfer demo_Base58Decode 1 ''authority'' ''new owner''
         (demo_proof [''node''] 0) = Inr (Some (demo_instruction [''node'']))
   \<and> length (accounts (demo_instruction [''node''])) = 9
   \<and> length (proof_path (demo_proof [''node''] 0)) - unat (1 :: uint32_t) = 0
   \<and> length (data (demo_instruction [''node''])) = 116"
proof -
  have l: "length (proof_path (demo_proof [''node''] 0)) < 2 ^ 64"
    by (simp add: demo_proof_def)
  have t: "bubblegum_program_Transfer demo_Base58Decode 1 ''authority'' ''new owner''
         (demo_proof [''node''] 0) = Inr (Some (demo_instruction [''node'']))"
    by (simp add: transfer_eval)
  show ?thesis
    using transfer_instruction_layout [OF l t] by (simp add: transfer_eval)
qed


section \<open>The transaction store\<close>

lemma find_put_tx:
  "find (\<lambda>m. meta_id m = k) (put_tx meta ms) =
     (if k = meta_id meta then Some meta else find (\<lambda>m. meta_id m = k) ms)"
  by (induction ms) auto

lemma GetSolanaTx_meta_id: "GetSolanaTx k s = Some m \<Longrightarrow> meta_id m = k"
  by (auto simp: GetSolanaTx_def dest: find_Some_iff[THEN iffD1])

lemma GetSolanaTx_AddOrUpdateTx:
  "GetSolanaTx k (snd (AddOrUpdateTx meta s)) =
     (if accepts_writes s \<and> k = meta_id meta then Some meta else GetSolanaTx k s)"
  by (simp add: GetSolanaTx_def AddOrUpdateTx_def find_put_tx)

lemma accepts_writes_AddOrUpdateTx [simp]:
  "accepts_writes (snd (AddOrUpdateTx meta s)) = accepts_writes s"
  by (simp add: AddOrUpdateTx_def)

lemmas demo_defs = demo_meta_def demo_store_def demo_nonce_meta_def demo_IsRetriable_def
  demo_UsesDurableNonce_def

lemmas tx_eval = GetSolanaTx_def AddOrUpdateTx_def set_recent_blockhash_def
  set_last_valid_block_height_def set_sign_tx_param_def ClearRawSignatures_def Let_def
  ApproveTransaction_def OnGetLatestBlockhash_def OnGetBlockHeightForBlockhash_def
  kValidBlockHeightThreshold_def RetryTransaction_def
  OnGetLatestBlockhashForGetEstimatedTxFee_def GetEstimatedTxFee_def

lemmas demo_eval = OnGetSignatureStatuses_def signature_statuses_loop.simps
  update_pending_tx_def GetSolanaTx_def demo_store_def demo_meta_def AddOrUpdateTx_def

section \<open>Reconciliation\<close>

text \<open>
  The ids handed to \<^verbatim>\<open>OnGetSignatureStatuses\<close> are those of the Submitted transactions
  of the chain, with the block height just fetched.
\<close>

lemma OnGetBlockHeight_examines_submitted:
  "OnGetBlockHeight chain h kSuccess msg s
     = (s, [GetSolanaSignatureStatuses chain
              (map tx_hash (GetTransactionsByStatus (Some chain) Submitted s))
              (map meta_id (GetTransactionsByStatus (Some chain) Submitted s)) h])"
  by (simp add: OnGetBlockHeight_def Let_def)

lemma GetTransactionsByStatus_Submitted:
  "m \<in> set (GetTransactionsByStatus (Some chain) Submitted s)
     \<longleftrightarrow> m \<in> set (transactions s) \<and> chain_id m = chain \<and> status m = Submitted"
  by (auto simp: GetTransactionsByStatus_def)

text \<open>
  The ids handed over are pairwise different when those of the store are.
\<close>

lemma GetTransactionsByStatus_distinct:
  "distinct (map meta_id (transactions s)) \<Longrightarrow>
   distinct (map meta_id (GetTransactionsByStatus chain st s))"
  by (simp add: GetTransactionsByStatus_def distinct_map_filter)

text \<open>
  One round of the loop changes the transaction of its own id only, and what it stores
  for that id depends on the transaction found under the id and on nothing else in the
  store.
\<close>

lemma accepts_writes_update_pending_tx:
  "accepts_writes (update_pending_tx now h i st s) = accepts_writes s"
  by (simp add: update_pending_tx_def Let_def split: option.splits)

lemma update_pending_tx_other:
  assumes "k \<noteq> i"
  shows "GetSolanaTx k (update_pending_tx now h i st s) = GetSolanaTx k s"
proof (cases "GetSolanaTx i s")
  case None
  then show ?thesis by (simp add: update_pending_tx_def)
next
  case (Some meta)
  then have "meta_id meta = i" by (rule GetSolanaTx_meta_id)
  with assms Some show ?thesis
    by (cases st) (simp_all add: update_pending_tx_def Let_def GetSolanaTx_AddOrUpdateTx)
qed

lemma update_pending_tx_same:
  assumes "GetSolanaTx i s = GetSolanaTx i t" "accepts_writes s = accepts_writes t"
  shows "GetSolanaTx i (update_pending_tx now h i st s)
     = GetSolanaTx i (update_pending_tx now h i st t)"
proof (cases "GetSolanaTx i s")
  case None
  with assms show ?thesis by (simp add: update_pending_tx_def)
next
  case (Some meta)
  then have id: "meta_id meta = i" by (rule GetSolanaTx_meta_id)
  have t: "GetSolanaTx i t = Some meta" using Some assms(1) by simp
  show ?thesis
    using Some t id assms(2)
    by (cases st) (simp_all add: update_pending_tx_def Let_def GetSolanaTx_AddOrUpdateTx)
qed

lemma accepts_writes_signature_statuses_loop:
  "accepts_writes (signature_statuses_loop j ids h sts now s) = accepts_writes s"
proof (induction j ids h sts now s rule: signature_statuses_loop.induct)
  case (1 j ids h sts now s)
  then show ?case
    by (subst signature_statuses_loop.simps) (simp add: accepts_writes_update_pending_tx)
qed

lemma signature_statuses_loop_other:
  "k \<notin> set (drop j ids) \<Longrightarrow>
   GetSolanaTx k (signature_statuses_loop j ids h sts now s) = GetSolanaTx k s"
proof (induction j ids h sts now s rule: signature_statuses_loop.induct)
  case (1 j ids h sts now s)
  show ?case
  proof (cases "j < length ids")
    case True
    then have d: "drop j ids = ids ! j # drop (j + 1) ids"
      by (simp add: Cons_nth_drop_Suc)
    with 1(2) have "k \<noteq> ids ! j" "k \<notin> set (drop (j + 1) ids)" by simp_all
    with True 1(1) show ?thesis
      by (subst signature_statuses_loop.simps) (simp add: update_pending_tx_other)
  next
    case False
    then show ?thesis by (subst signature_statuses_loop.simps) simp
  qed
qed

lemma signature_statuses_loop_at:
  "distinct ids \<Longrightarrow> j \<le> i \<Longrightarrow> i < length ids \<Longrightarrow>
   GetSolanaTx (ids ! i) (signature_statuses_loop j ids h sts now s)
     = GetSolanaTx (ids ! i) (update_pending_tx now h (ids ! i) (sts ! i) s)"
proof (induction j ids h sts now s rule: signature_statuses_loop.induct)
  case (1 j ids h sts now s)
  let ?s1 = "update_pending_tx now h (ids ! j) (sts ! j) s"
  have j: "j < length ids" using 1(3,4) by simp
  show ?case
  proof (cases "j = i")
    case True
    have "ids ! i \<notin> set (drop (i + 1) ids)"
      using 1(2,4) by (metis Cons_nth_drop_Suc Suc_eq_plus1 distinct.simps(2) distinct_drop)
    then show ?thesis
      using j True
      by (subst signature_statuses_loop.simps) (simp add: signature_statuses_loop_other)
  next
    case False
    then have lt: "j + 1 \<le> i" using 1(3) by simp
    have ne: "ids ! i \<noteq> ids ! j"
      using 1(2,4) j False by (simp add: nth_eq_iff_index_eq)
    have "GetSolanaTx (ids ! i) (signature_statuses_loop (j + 1) ids h sts now ?s1)
        = GetSolanaTx (ids ! i) (update_pending_tx now h (ids ! i) (sts ! i) ?s1)"
      using j 1(2,4) lt by (intro 1(1)) simp_all
    also have "\<dots> = GetSolanaTx (ids ! i) (update_pending_tx now h (ids ! i) (sts ! i) s)"
      by (intro update_pending_tx_same)
        (simp_all add: update_pending_tx_other [OF ne] accepts_writes_update_pending_tx)
    finally show ?thesis
      using j by (subst signature_statuses_loop.simps) simp
  qed
qed

text \<open>
  Claim C3, as the code has it. The callback receives any number of ids, pairwise
  different, and as many signature statuses. For each position \<open>i\<close>, with the
  transaction \<open>m\<close> stored under the id \<open>k\<close> at that position and the status \<open>st\<close> at
  that position, examined against the block height \<open>h\<close> in a store that accepts writes:
  \<^item> no status, and a last-valid-block-height that is not zero and below \<open>h\<close>: the status
    becomes Dropped;
  \<^item> no status otherwise (the height is zero, or not below \<open>h\<close>): the transaction stays
    as it is;
  \<^item> a status with a non-empty error: the signature status is stored and the status
    becomes Error;
  \<^item> a status without error whose confirmation status is \<open>finalized\<close>: the signature
    status is stored, the status becomes Confirmed and the confirmation time is recorded;
  \<^item> a status without error whose confirmation status is non-empty and not
    \<open>finalized\<close>: only the stored signature status changes;
  \<^item> a status without error and with an empty confirmation status: the transaction
    stays as it is.

  A transaction whose id is not among those handed over stays as it is.
\<close>

theorem reconcile_each_transaction:
  "distinct tx_meta_ids \<Longrightarrow> length signature_statuses = length tx_meta_ids \<Longrightarrow>
   i < length tx_meta_ids \<Longrightarrow> k = tx_meta_ids ! i \<Longrightarrow> st = signature_statuses ! i \<Longrightarrow>
   GetSolanaTx k s = Some m \<Longrightarrow> accepts_writes s \<Longrightarrow>
   s' = OnGetSignatureStatuses chain tx_meta_ids h signature_statuses kSuccess msg now s \<Longrightarrow>
   (st = None \<and> last_valid_block_height (message (tx m)) \<noteq> 0
      \<and> last_valid_block_height (message (tx m)) < h
      \<longrightarrow> GetSolanaTx k s' = Some (m\<lparr>status := Dropped\<rparr>))
   \<and> (st = None \<and> \<not> (last_valid_block_height (message (tx m)) \<noteq> 0
      \<and> last_valid_block_height (message (tx m)) < h) \<longrightarrow> GetSolanaTx k s' = Some m)
   \<and> (\<forall>x. st = Some x \<and> err x \<noteq> []
      \<longrightarrow> GetSolanaTx k s' = Some (m\<lparr>signature_status := x, status := Error\<rparr>))
   \<and> (\<forall>x. st = Some x \<and> err x = [] \<and> confirmation_status x = ''finalized''
      \<longrightarrow> GetSolanaTx k s'
            = Some (m\<lparr>signature_status := x, status := Confirmed, confirmed_time := now\<rparr>))
   \<and> (\<forall>x. st = Some x \<and> err x = [] \<and> confirmation_status x \<noteq> []
           \<and> confirmation_status x \<noteq> ''finalized''
      \<longrightarrow> GetSolanaTx k s' = Some (m\<lparr>signature_status := x\<rparr>))
   \<and> (\<forall>x. st = Some x \<and> err x = [] \<and> confirmation_status x = []
      \<longrightarrow> GetSolanaTx k s' = Some m)
   \<and> (\<forall>j. j \<notin> set tx_meta_ids \<longrightarrow> GetSolanaTx j s' = GetSolanaTx j s)"
proof -
  assume d: "distinct tx_meta_ids" and l: "length signature_statuses = length tx_meta_ids"
    and i: "i < length tx_meta_ids" and k: "k = tx_meta_ids ! i"
    and st: "st = signature_statuses ! i"
    and g: "GetSolanaTx k s = Some m" and w: "accepts_writes s"
    and s': "s' = OnGetSignatureStatuses chain tx_meta_ids h signature_statuses kSuccess msg
                    now s"
  have loop: "s' = signature_statuses_loop 0 tx_meta_ids h signature_statuses now s"
    using l by (simp add: s' OnGetSignatureStatuses_def)
  have "GetSolanaTx k s' = GetSolanaTx k (update_pending_tx now h k st s)"
    unfolding loop k st using d i by (intro signature_statuses_loop_at) simp_all
  moreover have "meta_id m = k" using g by (rule GetSolanaTx_meta_id)
  moreover have "j \<notin> set tx_meta_ids \<Longrightarrow> GetSolanaTx j s' = GetSolanaTx j s" for j
    unfolding loop by (rule signature_statuses_loop_other) simp
  ultimately show ?thesis
    using g w by (simp add: update_pending_tx_def GetSolanaTx_AddOrUpdateTx Let_def)
qed

text \<open>
  Two batches of three transactions \<open>a\<close>, \<open>b\<close>, \<open>c\<close>, which between them run through the
  six cases.
\<close>

theorem reconcile_each_transaction_witness:
  "distinct [''a'', ''b'', ''c'']
   \<and> accepts_writes (demo_store [demo_meta ''a'' Submitted ''bh'' 7,
          demo_meta ''b'' Submitted ''bh'' 7, demo_meta ''c'' Submitted ''bh'' 7])
   \<and> GetSolanaTx ''a'' (OnGetSignatureStatuses ''0x65'' [''a'', ''b'', ''c''] 1000
         [None, Some \<lparr>err = ''boom'', confirmation_status = ''processed''\<rparr>,
          Some \<lparr>err = [], confirmation_status = ''finalized''\<rparr>] kSuccess [] 5
         (demo_store [demo_meta ''a'' Submitted ''bh'' 7, demo_meta ''b'' Submitted ''bh'' 7,
            demo_meta ''c'' Submitted ''bh'' 7]))
       = Some ((demo_meta ''a'' Submitted ''bh'' 7)\<lparr>status := Dropped\<rparr>)
   \<and> GetSolanaTx ''b'' (OnGetSignatureStatuses ''0x65'' [''a'', ''b'', ''c''] 1000
         [None, Some \<lparr>err = ''boom'', confirmation_status = ''processed''\<rparr>,
          Some \<lparr>err = [], confirmation_status = ''finalized''\<rparr>] kSuccess [] 5
         (demo_store [demo_meta ''a'' Submitted ''bh'' 7, demo_meta ''b'' Submitted ''bh'' 7,
            demo_meta ''c'' Submitted ''bh'' 7]))
       = Some ((demo_meta ''b'' Submitted ''bh'' 7)
                \<lparr>signature_status := \<lparr>err = ''boom'', confirmation_status = ''processed''\<rparr>,
                 status := Error\<rparr>)
   \<and> GetSolanaTx ''c'' (OnGetSignatureStatuses ''0x65'' [''a'', ''b'', ''c''] 1000
         [None, Some \<lparr>err = ''boom'', confirmation_status = ''processed''\<rparr>,
          Some \<lparr>err = [], confirmation_status = ''finalized''\<rparr>] kSuccess [] 5
         (demo_store [demo_meta ''a'' Submitted ''bh'' 7, demo_meta ''b'' Submitted ''bh'' 7,
            demo_meta ''c'' Submitted ''bh'' 7]))
       = Some ((demo_meta ''c'' Submitted ''bh'' 7)
                \<lparr>signature_status := \<lparr>err = [], confirmation_status = ''finalized''\<rparr>,
                 status := Confirmed, confirmed_time := 5\<rparr>)
   \<and> GetSolanaTx ''a'' (OnGetSignatureStatuses ''0x65'' [''a'', ''b'', ''c''] 1000
         [None, Some \<lparr>err = [], confirmation_status = ''confirmed''\<rparr>,
          Some \<lparr>err = [], confirmation_status = []\<rparr>] kSuccess [] 5
         (demo_store [demo_meta ''a'' Submitted ''bh'' 1000, demo_meta ''b'' Submitted ''bh'' 7,
            demo_meta ''c'' Submitted ''bh'' 7]))
       = Some (demo_meta ''a'' Submitted ''bh'' 1000)
   \<and> GetSolanaTx ''b'' (OnGetSignatureStatuses ''0x65'' [''a'', ''b'', ''c''] 1000
         [None, Some \<lparr>err = [], confirmation_status = ''confirmed''\<rparr>,
          Some \<lparr>err = [], confirmation_status = []\<rparr>] kSuccess [] 5
         (demo_store [demo_meta ''a'' Submitted ''bh'' 1000, demo_meta ''b'' Submitted ''bh'' 7,
            demo_meta ''c'' Submitted ''bh'' 7]))
       = Some ((demo_meta ''b'' Submitted ''bh'' 7)
                \<lparr>signature_status := \<lparr>err = [], confirmation_status = ''confirmed''\<rparr>\<rparr>)
   \<and> GetSolanaTx ''c'' (OnGetSignatureStatuses ''0x65'' [''a'', ''b'', ''c''] 1000
         [None, Some \<lparr>err = [], confirmation_status = ''confirmed''\<rparr>,
          Some \<lparr>err = [], confirmation_status = []\<rparr>] kSuccess [] 5
         (demo_store [demo_meta ''a'' Submitted ''bh'' 1000, demo_meta ''b'' Submitted ''bh'' 7,
            demo_meta ''c'' Submitted ''bh'' 7]))
       = Some (demo_meta ''c'' Submitted ''bh'' 7)"
proof -
  let ?ids = "[''a'', ''b'', ''c'']"
  let ?b = "demo_meta ''b'' Submitted ''bh'' 7" and ?c = "demo_meta ''c'' Submitted ''bh'' 7"
  let ?s = "demo_store [demo_meta ''a'' Submitted ''bh'' 7, ?b, ?c]"
  let ?t = "demo_store [demo_meta ''a'' Submitted ''bh'' 1000, ?b, ?c]"
  let ?x = "[None, Some \<lparr>err = ''boom'', confirmation_status = ''processed''\<rparr>,
             Some \<lparr>err = [], confirmation_status = ''finalized''\<rparr>]"
  let ?y = "[None, Some \<lparr>err = [], confirmation_status = ''confirmed''\<rparr>,
             Some \<lparr>err = [], confirmation_status = []\<rparr>]"
  have d: "distinct ?ids" and lx: "length ?x = length ?ids" and ly: "length ?y = length ?ids"
    and i: "0 < length ?ids" "1 < length ?ids" "2 < length ?ids"
    by simp_all
  have w: "accepts_writes ?s" "accepts_writes ?t" by (simp_all add: demo_store_def)
  have gs: "GetSolanaTx ''a'' ?s = Some (demo_meta ''a'' Submitted ''bh'' 7)"
    "GetSolanaTx ''b'' ?s = Some ?b" "GetSolanaTx ''c'' ?s = Some ?c"
    and gt: "GetSolanaTx ''a'' ?t = Some (demo_meta ''a'' Submitted ''bh'' 1000)"
    "GetSolanaTx ''b'' ?t = Some ?b" "GetSolanaTx ''c'' ?t = Some ?c"
    by (simp_all add: GetSolanaTx_def demo_store_def demo_meta_def)
  have h: "last_valid_block_height (message (tx (demo_meta k st b n))) = n" for k st b n
    by (simp add: demo_meta_def)
  note r = reconcile_each_transaction [where chain = "''0x65''" and h = 1000 and msg = "[]"
      and now = 5 and tx_meta_ids = ?ids, OF d]
  show ?thesis
    using d w(1)
      r [where signature_statuses = ?x and i = 0 and k = "''a''", OF lx i(1) _ refl gs(1) w(1) refl]
      r [where signature_statuses = ?x and i = 1 and k = "''b''", OF lx i(2) _ refl gs(2) w(1) refl]
      r [where signature_statuses = ?x and i = 2 and k = "''c''", OF lx i(3) _ refl gs(3) w(1) refl]
      r [where signature_statuses = ?y and i = 0 and k = "''a''", OF ly i(1) _ refl gt(1) w(2) refl]
      r [where signature_statuses = ?y and i = 1 and k = "''b''", OF ly i(2) _ refl gt(2) w(2) refl]
      r [where signature_statuses = ?y and i = 2 and k = "''c''", OF ly i(3) _ refl gt(3) w(2) refl]
    by (simp add: h)
qed

text \<open>
  Claim C3 as the specification words it fails twice. With no status returned and a
  last-valid-block-height of \<open>0\<close>, which is below the block height \<open>1000\<close>, the
  transaction stays Submitted instead of becoming Dropped; and a returned status with
  neither error nor confirmation status does not replace the stored signature status.
\<close>

theorem reconcile_each_transaction_counterexample:
  "last_valid_block_height (message (tx (demo_meta ''a'' Submitted ''bh'' 0))) < 1000
   \<and> GetSolanaTx ''a'' (OnGetSignatureStatuses ''0x65'' [''a''] 1000 [None] kSuccess [] 5
         (demo_store [demo_meta ''a'' Submitted ''bh'' 0]))
       = Some (demo_meta ''a'' Submitted ''bh'' 0)
   \<and> status (demo_meta ''a'' Submitted ''bh'' 0) \<noteq> Dropped
   \<and> signature_status (the (GetSolanaTx ''a''
         (OnGetSignatureStatuses ''0x65'' [''a''] 1000
            [Some \<lparr>err = [], confirmation_status = []\<rparr>] kSuccess [] 5
            (demo_store [demo_meta ''a'' Submitted ''bh'' 7]))))
       \<noteq> \<lparr>err = [], confirmation_status = []\<rparr>"
  by (simp add: demo_eval)

subsection \<open>A zero last-valid-block-height never drops\<close>

lemma never_dropped_AddOrUpdateTx:
  "never_dropped k s \<Longrightarrow>
   meta_id meta \<noteq> k
     \<or> (last_valid_block_height (message (tx meta)) = 0 \<and> status meta \<noteq> Dropped)
   \<Longrightarrow> never_dropped k (snd (AddOrUpdateTx meta s))"
  unfolding never_dropped_def by (auto simp: GetSolanaTx_AddOrUpdateTx)

lemma update_pending_tx_never_dropped:
  assumes "never_dropped k s"
  shows "never_dropped k (update_pending_tx now h i st s)"
proof (cases "GetSolanaTx i s")
  case None
  with assms show ?thesis by (simp add: update_pending_tx_def)
next
  case (Some meta)
  then have id: "meta_id meta = i" by (rule GetSolanaTx_meta_id)
  have same: "i = k \<Longrightarrow> last_valid_block_height (message (tx meta)) = 0 \<and> status meta \<noteq> Dropped"
    using assms Some by (auto simp: never_dropped_def)
  show ?thesis
  proof (cases st)
    case None
    show ?thesis
      using assms Some None id same
      by (cases "i = k") (simp_all add: update_pending_tx_def never_dropped_AddOrUpdateTx)
  next
    case (Some x)
    show ?thesis
      using assms \<open>GetSolanaTx i s = Some meta\<close> Some id same
      by (cases "i = k")
        (simp_all add: update_pending_tx_def Let_def never_dropped_AddOrUpdateTx)
  qed
qed

lemma signature_statuses_loop_never_dropped:
  "never_dropped k s \<Longrightarrow> never_dropped k (signature_statuses_loop i ids h sts now s)"
proof (induction i ids h sts now s rule: signature_statuses_loop.induct)
  case (1 i ids h sts now s)
  show ?case
  proof (cases "i < length ids")
    case True
    with 1 show ?thesis
      by (subst signature_statuses_loop.simps) (simp add: update_pending_tx_never_dropped)
  next
    case False
    with 1 show ?thesis by (subst signature_statuses_loop.simps) simp
  qed
qed

text \<open>
  Claim C10. A stored Submitted transaction whose last-valid-block-height is \<open>0\<close> is
  still stored and not Dropped after \<^verbatim>\<open>OnGetSignatureStatuses\<close>, whatever ids,
  signature statuses (none included), block height and error the callback receives.
\<close>

theorem zero_height_never_dropped:
  "GetSolanaTx k s = Some m \<Longrightarrow> status m = Submitted \<Longrightarrow>
   last_valid_block_height (message (tx m)) = 0 \<Longrightarrow>
   \<exists>m'. GetSolanaTx k (OnGetSignatureStatuses chain ids h sts e msg now s) = Some m'
        \<and> status m' \<noteq> Dropped"
proof -
  assume a: "GetSolanaTx k s = Some m" "status m = Submitted"
    "last_valid_block_height (message (tx m)) = 0"
  then have "never_dropped k s" by (auto simp: never_dropped_def)
  then have "never_dropped k (OnGetSignatureStatuses chain ids h sts e msg now s)"
    by (simp add: OnGetSignatureStatuses_def signature_statuses_loop_never_dropped)
  then show ?thesis by (auto simp: never_dropped_def)
qed

text \<open>No status is returned and the block height is the largest \<^verbatim>\<open>uint64_t\<close>.\<close>

theorem zero_height_never_dropped_witness:
  "GetSolanaTx ''a'' (demo_store [demo_meta ''a'' Submitted ''bh'' 0])
     = Some (demo_meta ''a'' Submitted ''bh'' 0)
   \<and> status (demo_meta ''a'' Submitted ''bh'' 0) = Submitted
   \<and> last_valid_block_height (message (tx (demo_meta ''a'' Submitted ''bh'' 0))) = 0
   \<and> (\<exists>m'. GetSolanaTx ''a''
          (OnGetSignatureStatuses ''0x65'' [''a''] 18446744073709551615 [None] kSuccess [] 5
             (demo_store [demo_meta ''a'' Submitted ''bh'' 0])) = Some m'
          \<and> status m' \<noteq> Dropped)"
proof -
  let ?m = "demo_meta ''a'' Submitted ''bh'' 0"
  let ?s = "demo_store [?m]"
  have g: "GetSolanaTx ''a'' ?s = Some ?m"
    by (simp add: GetSolanaTx_def demo_store_def demo_meta_def)
  have st: "status ?m = Submitted" and l: "last_valid_block_height (message (tx ?m)) = 0"
    by (simp_all add: demo_meta_def)
  show ?thesis
    using g st l zero_height_never_dropped [OF g st l] by simp
qed

section \<open>Approval\<close>

lemma meta_id_setters [simp]:
  "meta_id (set_recent_blockhash b meta) = meta_id meta"
  "meta_id (set_last_valid_block_height h meta) = meta_id meta"
  "meta_id (set_sign_tx_param p meta) = meta_id meta"
  "meta_id (ClearRawSignatures meta) = meta_id meta"
  by (simp_all add: set_recent_blockhash_def set_last_valid_block_height_def
      set_sign_tx_param_def ClearRawSignatures_def)

text \<open>
  Claim C4. For a stored transaction \<open>meta\<close>: with an empty blockhash, approval asks the
  block tracker for the latest blockhash; with a blockhash set, it asks for the block
  height only, and the continuation hands that blockhash and \<open>block_height + 150\<close> to
  \<^verbatim>\<open>OnGetLatestBlockhash\<close>. There, in both branches, blockhash and
  last-valid-block-height are set on the metadata, the metadata is persisted, and the
  transaction sent is the one persisted; when the store refuses the write nothing is
  sent.
\<close>

theorem approve_sets_blockhash_and_height:
  "GetSolanaTx tx_meta_id s = Some meta \<Longrightarrow>
   (recent_blockhash (message (tx meta)) = [] \<longrightarrow>
      ApproveTransaction tx_meta_id s = (s, [GetLatestBlockhash (chain_id meta) meta]))
   \<and> (recent_blockhash (message (tx meta)) \<noteq> [] \<longrightarrow>
      ApproveTransaction tx_meta_id s
        = (s, [GetSolanaBlockHeight (chain_id meta) meta (recent_blockhash (message (tx meta)))]))
   \<and> OnGetBlockHeightForBlockhash meta blockhash block_height kSuccess msg s
        = OnGetLatestBlockhash meta blockhash (block_height + 150) kSuccess [] s
   \<and> (accepts_writes s \<longrightarrow>
        (\<exists>s'. OnGetLatestBlockhash meta blockhash height kSuccess msg s
             = (s', [SendSolanaTransaction (chain_id meta)
                       (tx (approved_meta blockhash height meta)) tx_meta_id])
           \<and> GetSolanaTx tx_meta_id s' = Some (approved_meta blockhash height meta)))
   \<and> recent_blockhash (message (tx (approved_meta blockhash height meta))) = blockhash
   \<and> last_valid_block_height (message (tx (approved_meta blockhash height meta))) = height
   \<and> (\<not> accepts_writes s \<longrightarrow>
        OnGetLatestBlockhash meta blockhash height kSuccess msg s
          = (s, [ApproveTransactionCallback False kInternalError ''IDS_WALLET_INTERNAL_ERROR'']))"
  apply (frule GetSolanaTx_meta_id)
  apply (intro conjI impI)
        apply (simp add: ApproveTransaction_def)
       apply (simp add: ApproveTransaction_def)
      apply (simp add: OnGetBlockHeightForBlockhash_def kValidBlockHeightThreshold_def)
     apply (simp add: OnGetLatestBlockhash_def approved_meta_def Let_def AddOrUpdateTx_def
      GetSolanaTx_def find_put_tx set_recent_blockhash_def set_last_valid_block_height_def)
    apply (simp add: approved_meta_def set_recent_blockhash_def set_last_valid_block_height_def)
   apply (simp add: approved_meta_def set_recent_blockhash_def set_last_valid_block_height_def)
  apply (simp add: OnGetLatestBlockhash_def Let_def AddOrUpdateTx_def)
  done

text \<open>
  Approval of a transaction without blockhash (the latest blockhash \<open>hash\<close>, valid up to
  height \<open>1234\<close>, is fetched), of a transaction with the blockhash \<open>bh\<close> at block height
  \<open>1000\<close>, and approval on a store that refuses writes.
\<close>

theorem approve_sets_blockhash_and_height_witness:
  "GetSolanaTx ''a'' (demo_store [demo_meta ''a'' Unapproved [] 0])
       = Some (demo_meta ''a'' Unapproved [] 0)
   \<and> ApproveTransaction ''a'' (demo_store [demo_meta ''a'' Unapproved [] 0])
       = (demo_store [demo_meta ''a'' Unapproved [] 0],
          [GetLatestBlockhash ''0x65'' (demo_meta ''a'' Unapproved [] 0)])
   \<and> OnGetLatestBlockhash (demo_meta ''a'' Unapproved [] 0) ''hash'' 1234 kSuccess []
         (demo_store [demo_meta ''a'' Unapproved [] 0])
       = (demo_store [demo_meta ''a'' Approved ''hash'' 1234],
          [SendSolanaTransaction ''0x65'' (tx (demo_meta ''a'' Approved ''hash'' 1234)) ''a''])
   \<and> GetSolanaTx ''a'' (demo_store [demo_meta ''a'' Unapproved ''bh'' 0])
       = Some (demo_meta ''a'' Unapproved ''bh'' 0)
   \<and> ApproveTransaction ''a'' (demo_store [demo_meta ''a'' Unapproved ''bh'' 0])
       = (demo_store [demo_meta ''a'' Unapproved ''bh'' 0],
          [GetSolanaBlockHeight ''0x65'' (demo_meta ''a'' Unapproved ''bh'' 0) ''bh''])
   \<and> OnGetBlockHeightForBlockhash (demo_meta ''a'' Unapproved ''bh'' 0) ''bh'' 1000 kSuccess []
         (demo_store [demo_meta ''a'' Unapproved ''bh'' 0])
       = (demo_store [demo_meta ''a'' Approved ''bh'' 1150],
          [SendSolanaTransaction ''0x65'' (tx (demo_meta ''a'' Approved ''bh'' 1150)) ''a''])
   \<and> OnGetLatestBlockhash (demo_meta ''a'' Unapproved [] 0) ''hash'' 1234 kSuccess []
         ((demo_store [demo_meta ''a'' Unapproved [] 0])\<lparr>accepts_writes := False\<rparr>)
       = ((demo_store [demo_meta ''a'' Unapproved [] 0])\<lparr>accepts_writes := False\<rparr>,
          [ApproveTransactionCallback False kInternalError ''IDS_WALLET_INTERNAL_ERROR''])"
proof -
  let ?e = "demo_meta ''a'' Unapproved [] 0" and ?b = "demo_meta ''a'' Unapproved ''bh'' 0"
  have ge: "GetSolanaTx ''a'' (demo_store [?e]) = Some ?e"
    and gb: "GetSolanaTx ''a'' (demo_store [?b]) = Some ?b"
    and gr: "GetSolanaTx ''a'' ((demo_store [?e])\<lparr>accepts_writes := False\<rparr>) = Some ?e"
    by (simp_all add: GetSolanaTx_def demo_defs)
  show ?thesis
    using ge gb
      approve_sets_blockhash_and_height [OF ge, where blockhash = "''hash''" and height = 1234 and msg = "[]"]
      approve_sets_blockhash_and_height [OF gb, where blockhash = "''bh''" and block_height = 1000 and height = 1150
             and msg = "[]"]
      approve_sets_blockhash_and_height [OF gr, where blockhash = "''hash''" and height = 1234 and msg = "[]"]
    by (simp add: demo_defs approved_meta_def tx_eval)
qed

section \<open>Retry\<close>

lemma RetryTransaction_cases:
  "RetryTransaction IsRetriable UsesDurableNonce generated_id now tx_meta_id s =
     (case GetSolanaTx tx_meta_id s of
        None \<Rightarrow>
          (s, [RetryTransactionCallback False [] ''IDS_BRAVE_WALLET_TRANSACTION_NOT_FOUND''])
      | Some meta \<Rightarrow>
          if \<not> IsRetriable meta
          then (s, [RetryTransactionCallback False []
                      ''IDS_BRAVE_WALLET_TRANSACTION_NOT_RETRIABLE''])
          else if accepts_writes s
          then (snd (AddOrUpdateTx (retried_meta UsesDurableNonce generated_id now meta) s),
                [RetryTransactionCallback True generated_id []])
          else (s, [RetryTransactionCallback False [] ''IDS_WALLET_INTERNAL_ERROR'']))"
  by (simp add: RetryTransaction_def retried_meta_def Let_def AddOrUpdateTx_def
      ClearRawSignatures_def split: option.splits)

lemma retried_meta_fields:
  "meta_id (retried_meta U g now meta) = g"
  "status (retried_meta U g now meta) = Unapproved"
  "submitted_time (retried_meta U g now meta) = 0"
  "confirmed_time (retried_meta U g now meta) = 0"
  "raw_signatures (tx (retried_meta U g now meta)) = []"
  "last_valid_block_height (message (tx (retried_meta U g now meta))) = 0"
  "recent_blockhash (message (tx (retried_meta U g now meta)))
     = (if U (message (tx meta)) then recent_blockhash (message (tx meta)) else [])"
  "sign_tx_param (tx (retried_meta U g now meta))
     = (if U (message (tx meta)) then sign_tx_param (tx meta) else None)"
  by (simp_all add: retried_meta_def ClearRawSignatures_def set_last_valid_block_height_def
      set_sign_tx_param_def set_recent_blockhash_def)

text \<open>
  Claim C5. A retry that reports success was made on a stored, retriable transaction, and
  the store then holds, under the generated id, a transaction whose blockhash (and
  \<^verbatim>\<open>sign_tx_param\<close>) is the old one if the message uses a durable nonce and empty
  (unset) otherwise, whose last-valid-block-height is \<open>0\<close>, whose raw signatures are
  cleared, whose status is Unapproved and whose submitted and confirmed times are unset.
  Conversely the retry of a stored retriable transaction succeeds when the store accepts
  the write.
\<close>

theorem retry_resets_transaction:
  "(RetryTransaction IsRetriable UsesDurableNonce generated_id now tx_meta_id s
      = (s', [RetryTransactionCallback True new_id msg])
    \<longrightarrow> (\<exists>meta meta'.
          GetSolanaTx tx_meta_id s = Some meta \<and> IsRetriable meta
          \<and> new_id = generated_id \<and> GetSolanaTx generated_id s' = Some meta'
          \<and> (UsesDurableNonce (message (tx meta)) \<longrightarrow>
                recent_blockhash (message (tx meta')) = recent_blockhash (message (tx meta))
                \<and> sign_tx_param (tx meta') = sign_tx_param (tx meta))
          \<and> (\<not> UsesDurableNonce (message (tx meta)) \<longrightarrow>
                recent_blockhash (message (tx meta')) = []
                \<and> sign_tx_param (tx meta') = None)
          \<and> last_valid_block_height (message (tx meta')) = 0
          \<and> raw_signatures (tx meta') = []
          \<and> meta_id meta' = generated_id
          \<and> status meta' = Unapproved
          \<and> submitted_time meta' = 0
          \<and> confirmed_time meta' = 0))
   \<and> (GetSolanaTx tx_meta_id s = Some meta \<and> IsRetriable meta \<and> accepts_writes s
    \<longrightarrow> (\<exists>s''. RetryTransaction IsRetriable UsesDurableNonce generated_id now tx_meta_id s
             = (s'', [RetryTransactionCallback True generated_id []])))"
proof (intro conjI impI)
  assume r: "RetryTransaction IsRetriable UsesDurableNonce generated_id now tx_meta_id s
      = (s', [RetryTransactionCallback True new_id msg])"
  then obtain meta where g: "GetSolanaTx tx_meta_id s = Some meta"
    by (cases "GetSolanaTx tx_meta_id s") (simp_all add: RetryTransaction_cases)
  from r g have i: "IsRetriable meta" and w: "accepts_writes s"
    by (simp_all add: RetryTransaction_cases split: if_splits)
  let ?m = "retried_meta UsesDurableNonce generated_id now meta"
  from r g i w have s': "s' = snd (AddOrUpdateTx ?m s)" and n: "new_id = generated_id"
    by (auto simp: RetryTransaction_cases)
  have "GetSolanaTx generated_id s' = Some ?m"
    using w by (simp add: s' GetSolanaTx_AddOrUpdateTx retried_meta_fields)
  with g i n show "\<exists>meta meta'.
          GetSolanaTx tx_meta_id s = Some meta \<and> IsRetriable meta
          \<and> new_id = generated_id \<and> GetSolanaTx generated_id s' = Some meta'
          \<and> (UsesDurableNonce (message (tx meta)) \<longrightarrow>
                recent_blockhash (message (tx meta')) = recent_blockhash (message (tx meta))
                \<and> sign_tx_param (tx meta') = sign_tx_param (tx meta))
          \<and> (\<not> UsesDurableNonce (message (tx meta)) \<longrightarrow>
                recent_blockhash (message (tx meta')) = []
                \<and> sign_tx_param (tx meta') = None)
          \<and> last_valid_block_height (message (tx meta')) = 0
          \<and> raw_signatures (tx meta') = []
          \<and> meta_id meta' = generated_id
          \<and> status meta' = Unapproved
          \<and> submitted_time meta' = 0
          \<and> confirmed_time meta' = 0"
    by (intro exI [of _ meta] exI [of _ ?m]) (simp add: retried_meta_fields)
next
  assume "GetSolanaTx tx_meta_id s = Some meta \<and> IsRetriable meta \<and> accepts_writes s"
  then show "\<exists>s''. RetryTransaction IsRetriable UsesDurableNonce generated_id now tx_meta_id s
             = (s'', [RetryTransactionCallback True generated_id []])"
    by (simp add: RetryTransaction_cases)
qed

text \<open>
  A retry of the failed transaction \<open>a\<close> without durable nonce, and of a dropped one with
  a durable nonce.
\<close>

theorem retry_resets_transaction_witness:
  "RetryTransaction demo_IsRetriable demo_UsesDurableNonce ''b'' 9 ''a''
       (demo_store [demo_meta ''a'' Error ''bh'' 7])
     = (demo_store [demo_meta ''a'' Error ''bh'' 7, demo_retried []],
        [RetryTransactionCallback True ''b'' []])
   \<and> GetSolanaTx ''a'' (demo_store [demo_meta ''a'' Error ''bh'' 7])
     = Some (demo_meta ''a'' Error ''bh'' 7)
   \<and> demo_IsRetriable (demo_meta ''a'' Error ''bh'' 7)
   \<and> \<not> demo_UsesDurableNonce (message (tx (demo_meta ''a'' Error ''bh'' 7)))
   \<and> GetSolanaTx ''b'' (demo_store [demo_meta ''a'' Error ''bh'' 7, demo_retried []])
     = Some (demo_retried [])
   \<and> demo_UsesDurableNonce (message (tx (demo_nonce_meta ''a'' Dropped ''bh'' 7)))
   \<and> recent_blockhash (message (tx (the (GetSolanaTx ''b''
         (fst (RetryTransaction demo_IsRetriable demo_UsesDurableNonce ''b'' 9 ''a''
                (demo_store [demo_nonce_meta ''a'' Dropped ''bh'' 7]))))))) = ''bh''
   \<and> last_valid_block_height (message (tx (the (GetSolanaTx ''b''
         (fst (RetryTransaction demo_IsRetriable demo_UsesDurableNonce ''b'' 9 ''a''
                (demo_store [demo_nonce_meta ''a'' Dropped ''bh'' 7]))))))) = 0"
proof -
  let ?s = "demo_store [demo_meta ''a'' Error ''bh'' 7]"
  let ?n = "demo_store [demo_nonce_meta ''a'' Dropped ''bh'' 7]"
  have r: "RetryTransaction demo_IsRetriable demo_UsesDurableNonce ''b'' 9 ''a'' ?s
     = (demo_store [demo_meta ''a'' Error ''bh'' 7, demo_retried []],
        [RetryTransactionCallback True ''b'' []])"
    by (simp add: demo_defs demo_retried_def tx_eval)
  have rn: "RetryTransaction demo_IsRetriable demo_UsesDurableNonce ''b'' 9 ''a'' ?n
     = (fst (RetryTransaction demo_IsRetriable demo_UsesDurableNonce ''b'' 9 ''a'' ?n),
        [RetryTransactionCallback True ''b'' []])"
    by (simp add: demo_defs tx_eval)
  show ?thesis
    using r
      retry_resets_transaction [THEN conjunct1, rule_format, OF r]
      retry_resets_transaction [THEN conjunct1, rule_format, OF rn]
    by (simp add: demo_defs demo_retried_def tx_eval)
qed

section \<open>Blockhash and last-valid-block-height\<close>

lemma stored_message_AddOrUpdateTx:
  "GetSolanaTx (meta_id meta) s = Some old \<Longrightarrow> message (tx meta) = message (tx old) \<Longrightarrow>
   stored_message k (snd (AddOrUpdateTx meta s)) = stored_message k s"
  by (auto simp: stored_message_def GetSolanaTx_AddOrUpdateTx)

lemma update_pending_tx_message:
  "stored_message k (update_pending_tx now h i st s) = stored_message k s"
proof (cases "GetSolanaTx i s")
  case None
  then show ?thesis by (simp add: update_pending_tx_def)
next
  case (Some meta)
  then have id: "meta_id meta = i" by (rule GetSolanaTx_meta_id)
  show ?thesis
  proof (cases st)
    case None
    show ?thesis
      using \<open>GetSolanaTx i s = Some meta\<close> None id
      by (simp add: update_pending_tx_def stored_message_AddOrUpdateTx)
  next
    case (Some x)
    show ?thesis
      using \<open>GetSolanaTx i s = Some meta\<close> Some id
      by (simp add: update_pending_tx_def Let_def stored_message_AddOrUpdateTx)
  qed
qed

lemma signature_statuses_loop_message:
  "stored_message k (signature_statuses_loop i ids h sts now s) = stored_message k s"
proof (induction i ids h sts now s rule: signature_statuses_loop.induct)
  case (1 i ids h sts now s)
  show ?case
  proof (cases "i < length ids")
    case True
    with 1 show ?thesis
      by (subst signature_statuses_loop.simps) (simp add: update_pending_tx_message)
  next
    case False
    then show ?thesis by (subst signature_statuses_loop.simps) simp
  qed
qed

lemma OnGetSignatureStatuses_message:
  "stored_message k (OnGetSignatureStatuses chain ids h sts e msg now s) = stored_message k s"
  by (simp add: OnGetSignatureStatuses_def signature_statuses_loop_message)

text \<open>Fee estimation asks for the latest blockhash whatever blockhash the message has.\<close>

lemma GetEstimatedTxFee_fetches_blockhash:
  "GetSolanaTx tx_meta_id s = Some meta \<Longrightarrow>
   GetEstimatedTxFee tx_meta_id s = (s, [GetLatestBlockhashForFee (chain_id meta) meta])"
  by (simp add: GetEstimatedTxFee_def)

subsection \<open>The invariant on the store\<close>

text \<open>
  A write puts the metadata into the store and leaves the other transactions as they
  are.
\<close>

lemma set_put_tx: "set (put_tx meta ms) \<subseteq> insert meta (set ms)"
  by (induction ms) auto

lemma put_tx_member: "meta \<in> set (put_tx meta ms)"
  by (induction ms) auto

lemma store_invariant_AddOrUpdateTx:
  assumes "store_invariant s"
  shows "store_invariant (snd (AddOrUpdateTx meta s))
     \<longleftrightarrow> (accepts_writes s \<longrightarrow> blockhash_height_invariant (message (tx meta)))"
  using assms set_put_tx [of meta "transactions s"] put_tx_member [of meta "transactions s"]
  by (auto simp: store_invariant_def AddOrUpdateTx_def)

lemma AddOrUpdateTx_fst: "fst (AddOrUpdateTx meta s) = accepts_writes s"
  by (simp add: AddOrUpdateTx_def)

lemma GetSolanaTx_stored:
  "GetSolanaTx k s = Some m \<Longrightarrow> m \<in> set (transactions s)"
  by (auto simp: GetSolanaTx_def find_Some_iff)

lemma store_invariant_GetSolanaTx:
  "store_invariant s \<Longrightarrow> GetSolanaTx k s = Some m \<Longrightarrow>
   blockhash_height_invariant (message (tx m))"
  by (auto simp: store_invariant_def dest: GetSolanaTx_stored)

lemma store_invariant_update_pending_tx:
  assumes "store_invariant s"
  shows "store_invariant (update_pending_tx now h i st s)"
proof (cases "GetSolanaTx i s")
  case None
  with assms show ?thesis by (simp add: update_pending_tx_def)
next
  case (Some meta)
  then have "blockhash_height_invariant (message (tx meta))"
    using assms by (rule store_invariant_GetSolanaTx [rotated])
  with assms Some show ?thesis
    by (cases st) (simp_all add: update_pending_tx_def Let_def store_invariant_AddOrUpdateTx)
qed

lemma store_invariant_signature_statuses_loop:
  "store_invariant s \<Longrightarrow> store_invariant (signature_statuses_loop j ids h sts now s)"
proof (induction j ids h sts now s rule: signature_statuses_loop.induct)
  case (1 j ids h sts now s)
  then show ?case
    by (subst signature_statuses_loop.simps) (simp add: store_invariant_update_pending_tx)
qed

lemma store_invariant_OnGetSignatureStatuses:
  "store_invariant s \<Longrightarrow>
   store_invariant (OnGetSignatureStatuses chain ids h sts error msg now s)"
  by (simp add: OnGetSignatureStatuses_def store_invariant_signature_statuses_loop)

lemma fst_case_AddOrUpdateTx:
  "fst (case AddOrUpdateTx meta s of (False, s') \<Rightarrow> (s', a s') | (True, s') \<Rightarrow> (s', b s'))
     = snd (AddOrUpdateTx meta s)"
  by (simp add: AddOrUpdateTx_def)

lemma message_setters:
  "message (tx (set_last_valid_block_height height (set_recent_blockhash blockhash meta)))
     = (message (tx meta))\<lparr>recent_blockhash := blockhash, last_valid_block_height := height\<rparr>"
  by (simp add: set_recent_blockhash_def set_last_valid_block_height_def)

lemma invariant_written:
  "blockhash_height_invariant
     (m\<lparr>recent_blockhash := blockhash, last_valid_block_height := height\<rparr>)
     \<longleftrightarrow> (blockhash = [] \<longleftrightarrow> height = 0)"
  by (simp add: blockhash_height_invariant_def)

lemma store_invariant_AddUnapprovedTransaction:
  assumes "store_invariant s"
  shows "store_invariant (fst (AddUnapprovedTransaction generated_id now chain tx_from_data s))
     \<longleftrightarrow> (\<forall>t. tx_from_data = Some t \<and> accepts_writes s
              \<longrightarrow> blockhash_height_invariant (message t))"
  using assms
  by (cases tx_from_data)
    (simp_all add: AddUnapprovedTransaction_def Let_def fst_case_AddOrUpdateTx
      store_invariant_AddOrUpdateTx new_tx_meta_def)

lemma store_invariant_OnGetLatestBlockhash:
  assumes "store_invariant s"
  shows "store_invariant (fst (OnGetLatestBlockhash meta blockhash height error msg s))
     \<longleftrightarrow> (error = kSuccess \<and> accepts_writes s \<longrightarrow> (blockhash = [] \<longleftrightarrow> height = 0))"
  using assms
  by (simp add: OnGetLatestBlockhash_def Let_def fst_case_AddOrUpdateTx
      store_invariant_AddOrUpdateTx message_setters invariant_written)

lemma store_invariant_OnGetLatestBlockhashHardware:
  assumes "store_invariant s"
  shows "store_invariant
       (fst (OnGetLatestBlockhashHardware serialize meta blockhash height error msg s))
     \<longleftrightarrow> (error = kSuccess \<and> accepts_writes s \<longrightarrow> (blockhash = [] \<longleftrightarrow> height = 0))"
proof -
  have "fst (OnGetLatestBlockhashHardware serialize meta blockhash height kSuccess msg s)
      = snd (AddOrUpdateTx
               (set_last_valid_block_height height (set_recent_blockhash blockhash meta)) s)"
    by (simp add: OnGetLatestBlockhashHardware_def Let_def AddOrUpdateTx_def
        split: option.splits)
  then show ?thesis
    using assms
    by (cases "error = kSuccess")
      (simp_all add: store_invariant_AddOrUpdateTx message_setters invariant_written
        OnGetLatestBlockhashHardware_def)
qed

lemma store_invariant_ProcessSolanaHardwareSignature:
  assumes "store_invariant s"
  shows "store_invariant
       (fst (ProcessSolanaHardwareSignature signed_bytes tx_meta_id signature_bytes s))"
proof (cases "GetSolanaTx tx_meta_id s")
  case None
  with assms show ?thesis by (simp add: ProcessSolanaHardwareSignature_def)
next
  case (Some meta)
  then have "blockhash_height_invariant (message (tx meta))"
    using assms by (rule store_invariant_GetSolanaTx [rotated])
  with assms Some show ?thesis
    by (cases "signed_bytes (tx meta) signature_bytes")
      (simp_all add: ProcessSolanaHardwareSignature_def Let_def fst_case_AddOrUpdateTx
        store_invariant_AddOrUpdateTx)
qed

lemma store_invariant_OnSendSolanaTransaction:
  assumes "store_invariant s"
  shows "store_invariant
       (fst (OnSendSolanaTransaction pending now tx_meta_id signature error msg s))"
proof (cases "GetSolanaTx tx_meta_id s")
  case None
  with assms show ?thesis by (simp add: OnSendSolanaTransaction_def)
next
  case (Some meta)
  then have "blockhash_height_invariant (message (tx meta))"
    using assms by (rule store_invariant_GetSolanaTx [rotated])
  with assms Some show ?thesis
    by (simp add: OnSendSolanaTransaction_def Let_def fst_case_AddOrUpdateTx
        store_invariant_AddOrUpdateTx)
qed

lemma UpdatePendingTransactions_store:
  "fst (UpdatePendingTransactions pending chain s) = s"
  by (simp add: UpdatePendingTransactions_def split: option.splits prod.splits)

lemma OnSendSolanaTransaction_message:
  "stored_message k (fst (OnSendSolanaTransaction pending now tx_meta_id signature error msg s))
     = stored_message k s"
proof (cases "GetSolanaTx tx_meta_id s")
  case None
  then show ?thesis by (simp add: OnSendSolanaTransaction_def)
next
  case (Some meta)
  then have "meta_id meta = tx_meta_id" by (rule GetSolanaTx_meta_id)
  with Some show ?thesis
    by (simp add: OnSendSolanaTransaction_def Let_def fst_case_AddOrUpdateTx
        stored_message_AddOrUpdateTx)
qed

lemma ProcessSolanaHardwareSignature_message:
  "stored_message k
       (fst (ProcessSolanaHardwareSignature signed_bytes tx_meta_id signature_bytes s))
     = stored_message k s"
proof (cases "GetSolanaTx tx_meta_id s")
  case None
  then show ?thesis by (simp add: ProcessSolanaHardwareSignature_def)
next
  case (Some meta)
  then have "meta_id meta = tx_meta_id" by (rule GetSolanaTx_meta_id)
  with Some show ?thesis
    by (cases "signed_bytes (tx meta) signature_bytes")
      (simp_all add: ProcessSolanaHardwareSignature_def Let_def fst_case_AddOrUpdateTx
        stored_message_AddOrUpdateTx)
qed

lemma store_invariant_RetryTransaction:
  assumes "store_invariant s"
  shows "store_invariant
       (fst (RetryTransaction IsRetriable UsesDurableNonce generated_id now tx_meta_id s))
     \<longleftrightarrow> (\<forall>m. GetSolanaTx tx_meta_id s = Some m \<and> IsRetriable m \<and> accepts_writes s
              \<and> UsesDurableNonce (message (tx m))
              \<longrightarrow> recent_blockhash (message (tx m)) = [])"
  using assms
  by (cases "GetSolanaTx tx_meta_id s")
    (simp_all add: RetryTransaction_cases store_invariant_AddOrUpdateTx
      blockhash_height_invariant_def retried_meta_fields)

lemma store_invariant_OnGetBlockHeightForBlockhash:
  assumes "store_invariant s"
  shows "store_invariant
       (fst (OnGetBlockHeightForBlockhash meta blockhash block_height error msg s))
     \<longleftrightarrow> (error = kSuccess \<and> accepts_writes s
            \<longrightarrow> (blockhash = [] \<longleftrightarrow> block_height + 150 = 0))"
  using assms store_invariant_OnGetLatestBlockhash [OF assms, where error = kSuccess]
  by (simp add: OnGetBlockHeightForBlockhash_def kValidBlockHeightThreshold_def)

lemma store_invariant_OnGetBlockHeightForBlockhashHardware:
  assumes "store_invariant s"
  shows "store_invariant
       (fst (OnGetBlockHeightForBlockhashHardware serialize meta blockhash block_height error
               msg s))
     \<longleftrightarrow> (error = kSuccess \<and> accepts_writes s
            \<longrightarrow> (blockhash = [] \<longleftrightarrow> block_height + 150 = 0))"
  using assms store_invariant_OnGetLatestBlockhashHardware [OF assms, where error = kSuccess]
  by (simp add: OnGetBlockHeightForBlockhashHardware_def kValidBlockHeightThreshold_def)

lemma priced_message:
  "GetSolanaFeeForMessage c m
     \<in> set (snd (OnGetLatestBlockhashForGetEstimatedTxFee meta blockhash height error msg s))
   \<Longrightarrow> blockhash_height_invariant m \<longleftrightarrow> (blockhash = [] \<longleftrightarrow> height = 0)"
  by (cases "error = kSuccess")
    (auto simp: OnGetLatestBlockhashForGetEstimatedTxFee_def Let_def message_setters
      invariant_written)

lemma dispatched_blockhash:
  "GetSolanaBlockHeight c m b \<in> set (snd (ApproveTransaction tx_meta_id s)) \<Longrightarrow>
   GetSolanaTx tx_meta_id s = Some m \<and> b = recent_blockhash (message (tx m)) \<and> b \<noteq> []"
  "GetSolanaBlockHeightHardware c m b \<in> set (snd (GetTransactionMessageToSign tx_meta_id s))
   \<Longrightarrow> GetSolanaTx tx_meta_id s = Some m \<and> b = recent_blockhash (message (tx m)) \<and> b \<noteq> []"
  by (auto simp: ApproveTransaction_def GetTransactionMessageToSign_def Let_def
      split: option.splits if_splits)

text \<open>
  Claim C7, as the code has it. Starting from a store in which every message satisfies
  the invariant, for every method of the manager that reads or writes the store:
  \<^item> \<^verbatim>\<open>ApproveTransaction\<close>, \<^verbatim>\<open>GetTransactionMessageToSign\<close>,
    \<^verbatim>\<open>UpdatePendingTransactions\<close>, \<^verbatim>\<open>OnLatestBlockhashUpdated\<close>, \<^verbatim>\<open>OnGetBlockHeight\<close>,
    \<^verbatim>\<open>GetEstimatedTxFee\<close> and \<^verbatim>\<open>OnGetLatestBlockhashForGetEstimatedTxFee\<close> leave the
    store as it is;
  \<^item> \<^verbatim>\<open>OnGetSignatureStatuses\<close>, \<^verbatim>\<open>OnSendSolanaTransaction\<close> and
    \<^verbatim>\<open>ProcessSolanaHardwareSignature\<close> preserve the invariant: they leave the message
    of every stored transaction as it is;
  \<^item> \<^verbatim>\<open>AddUnapprovedTransaction\<close> stores the message it is given: the invariant holds
    afterwards exactly if it holds for that message (or nothing was written);
  \<^item> \<^verbatim>\<open>OnGetLatestBlockhash\<close> and \<^verbatim>\<open>OnGetLatestBlockhashHardware\<close> write the
    blockhash and the height of the response together: the invariant holds afterwards
    exactly if the blockhash is empty when and only when the height is \<open>0\<close> (or nothing
    was written);
  \<^item> \<^verbatim>\<open>OnGetBlockHeightForBlockhash\<close> and \<^verbatim>\<open>OnGetBlockHeightForBlockhashHardware\<close>
    write the blockhash they are handed, which is never empty when it comes from
    \<^verbatim>\<open>ApproveTransaction\<close> or \<^verbatim>\<open>GetTransactionMessageToSign\<close>, together with
    \<open>block_height + 150\<close> in \<^verbatim>\<open>uint64_t\<close>;
  \<^item> fee estimation sets both fields, from one response, on the message it prices;
  \<^item> \<^verbatim>\<open>RetryTransaction\<close> preserves the invariant for a transaction without durable
    nonce; for a durable-nonce transaction it keeps the blockhash and sets the height to
    \<open>0\<close>, so the invariant holds afterwards exactly if that blockhash was empty.

  The remaining methods of the manager do not touch the store: those that build
  transaction data ask \<^verbatim>\<open>SolanaMessage::CreateLegacyMessage\<close> for a message with an
  empty blockhash and the height \<open>0\<close>, or parse the transaction they are given.
\<close>

theorem blockhash_and_height_written_together:
  assumes "store_invariant s"
  shows
    "(store_invariant (fst (AddUnapprovedTransaction generated_id now chain tx_from_data s))
        \<longleftrightarrow> (\<forall>t. tx_from_data = Some t \<and> accepts_writes s
                 \<longrightarrow> blockhash_height_invariant (message t)))
     \<and> fst (ApproveTransaction tx_meta_id s) = s
     \<and> (\<forall>c m b. GetSolanaBlockHeight c m b \<in> set (snd (ApproveTransaction tx_meta_id s))
            \<longrightarrow> b \<noteq> [])
     \<and> (store_invariant (fst (OnGetLatestBlockhash meta blockhash height error msg s))
        \<longleftrightarrow> (error = kSuccess \<and> accepts_writes s \<longrightarrow> (blockhash = [] \<longleftrightarrow> height = 0)))
     \<and> (store_invariant
          (fst (OnGetBlockHeightForBlockhash meta blockhash block_height error msg s))
        \<longleftrightarrow> (error = kSuccess \<and> accepts_writes s
               \<longrightarrow> (blockhash = [] \<longleftrightarrow> block_height + 150 = 0)))
     \<and> fst (GetTransactionMessageToSign tx_meta_id s) = s
     \<and> (\<forall>c m b. GetSolanaBlockHeightHardware c m b
                   \<in> set (snd (GetTransactionMessageToSign tx_meta_id s))
            \<longrightarrow> b \<noteq> [])
     \<and> (store_invariant
          (fst (OnGetLatestBlockhashHardware serialize meta blockhash height error msg s))
        \<longleftrightarrow> (error = kSuccess \<and> accepts_writes s \<longrightarrow> (blockhash = [] \<longleftrightarrow> height = 0)))
     \<and> (store_invariant
          (fst (OnGetBlockHeightForBlockhashHardware serialize meta blockhash block_height
                  error msg s))
        \<longleftrightarrow> (error = kSuccess \<and> accepts_writes s
               \<longrightarrow> (blockhash = [] \<longleftrightarrow> block_height + 150 = 0)))
     \<and> store_invariant
         (fst (ProcessSolanaHardwareSignature signed_bytes tx_meta_id signature_bytes s))
     \<and> stored_message k
           (fst (ProcessSolanaHardwareSignature signed_bytes tx_meta_id signature_bytes s))
         = stored_message k s
     \<and> store_invariant
         (fst (OnSendSolanaTransaction pending now tx_meta_id signature error msg s))
     \<and> stored_message k
           (fst (OnSendSolanaTransaction pending now tx_meta_id signature error msg s))
         = stored_message k s
     \<and> fst (UpdatePendingTransactions pending pending_chain s) = s
     \<and> fst (OnLatestBlockhashUpdated pending chain blockhash height s) = s
     \<and> fst (OnGetBlockHeight chain h error msg s) = s
     \<and> store_invariant (OnGetSignatureStatuses chain ids h sts error msg now s)
     \<and> stored_message k (OnGetSignatureStatuses chain ids h sts error msg now s)
         = stored_message k s
     \<and> (store_invariant
          (fst (RetryTransaction IsRetriable UsesDurableNonce generated_id now tx_meta_id s))
        \<longleftrightarrow> (\<forall>m. GetSolanaTx tx_meta_id s = Some m \<and> IsRetriable m \<and> accepts_writes s
                   \<and> UsesDurableNonce (message (tx m))
                 \<longrightarrow> recent_blockhash (message (tx m)) = []))
     \<and> fst (GetEstimatedTxFee tx_meta_id s) = s
     \<and> fst (OnGetLatestBlockhashForGetEstimatedTxFee meta blockhash height error msg s) = s
     \<and> (\<forall>c m. GetSolanaFeeForMessage c m
                 \<in> set (snd (OnGetLatestBlockhashForGetEstimatedTxFee meta blockhash height
                              error msg s))
            \<longrightarrow> (blockhash_height_invariant m \<longleftrightarrow> (blockhash = [] \<longleftrightarrow> height = 0)))"
proof -
  have 1: "fst (ApproveTransaction tx_meta_id s) = s"
    "fst (GetTransactionMessageToSign tx_meta_id s) = s"
    "fst (OnGetBlockHeight chain h error msg s) = s"
    "fst (GetEstimatedTxFee tx_meta_id s) = s"
    "fst (OnGetLatestBlockhashForGetEstimatedTxFee meta blockhash height error msg s) = s"
    by (simp_all add: ApproveTransaction_def GetTransactionMessageToSign_def
        OnGetBlockHeight_def GetEstimatedTxFee_def OnGetLatestBlockhashForGetEstimatedTxFee_def
        Let_def split: option.splits)
  have 2: "\<forall>c m b. GetSolanaBlockHeight c m b \<in> set (snd (ApproveTransaction tx_meta_id s))
            \<longrightarrow> b \<noteq> []"
    "\<forall>c m b. GetSolanaBlockHeightHardware c m b
                   \<in> set (snd (GetTransactionMessageToSign tx_meta_id s))
            \<longrightarrow> b \<noteq> []"
    using dispatched_blockhash by blast+
  have 3: "\<forall>c m. GetSolanaFeeForMessage c m
                 \<in> set (snd (OnGetLatestBlockhashForGetEstimatedTxFee meta blockhash height
                              error msg s))
            \<longrightarrow> (blockhash_height_invariant m \<longleftrightarrow> (blockhash = [] \<longleftrightarrow> height = 0))"
    using priced_message by blast
  show ?thesis
    apply (intro conjI)
    apply (rule store_invariant_AddUnapprovedTransaction [OF assms])
    apply (rule 1(1))
    apply (rule 2(1))
    apply (rule store_invariant_OnGetLatestBlockhash [OF assms])
    apply (rule store_invariant_OnGetBlockHeightForBlockhash [OF assms])
    apply (rule 1(2))
    apply (rule 2(2))
    apply (rule store_invariant_OnGetLatestBlockhashHardware [OF assms])
    apply (rule store_invariant_OnGetBlockHeightForBlockhashHardware [OF assms])
    apply (rule store_invariant_ProcessSolanaHardwareSignature [OF assms])
    apply (rule ProcessSolanaHardwareSignature_message)
    apply (rule store_invariant_OnSendSolanaTransaction [OF assms])
    apply (rule OnSendSolanaTransaction_message)
    apply (rule UpdatePendingTransactions_store)
    apply (simp add: OnLatestBlockhashUpdated_def UpdatePendingTransactions_store)
    apply (rule 1(3))
    apply (rule store_invariant_OnGetSignatureStatuses [OF assms])
    apply (rule OnGetSignatureStatuses_message)
    apply (rule store_invariant_RetryTransaction [OF assms])
    apply (rule 1(4))
    apply (rule 1(5))
    apply (rule 3)
    done
qed

text \<open>
  Each of the writing methods on a store that holds the failed transaction \<open>a\<close> and the
  unapproved transaction \<open>u\<close>.
\<close>

theorem blockhash_and_height_written_together_witness:
  "store_invariant (demo_store [demo_meta ''a'' Error ''bh'' 7, demo_meta ''u'' Unapproved [] 0])
   \<and> store_invariant (fst (AddUnapprovedTransaction ''b'' 9 ''0x65''
         (Some (tx (demo_meta ''n'' Unapproved [] 0)))
         (demo_store [demo_meta ''a'' Error ''bh'' 7, demo_meta ''u'' Unapproved [] 0])))
   \<and> store_invariant (fst (OnGetLatestBlockhash (demo_meta ''u'' Unapproved [] 0) ''hash'' 1234
         kSuccess []
         (demo_store [demo_meta ''a'' Error ''bh'' 7, demo_meta ''u'' Unapproved [] 0])))
   \<and> store_invariant (fst (OnGetBlockHeightForBlockhash (demo_meta ''u'' Unapproved [] 0)
         ''hash'' 1000 kSuccess []
         (demo_store [demo_meta ''a'' Error ''bh'' 7, demo_meta ''u'' Unapproved [] 0])))
   \<and> store_invariant (fst (OnGetLatestBlockhashHardware (\<lambda>t. Some [1])
         (demo_meta ''u'' Unapproved [] 0) ''hash'' 1234 kSuccess []
         (demo_store [demo_meta ''a'' Error ''bh'' 7, demo_meta ''u'' Unapproved [] 0])))
   \<and> store_invariant (fst (OnGetBlockHeightForBlockhashHardware (\<lambda>t. Some [1])
         (demo_meta ''u'' Unapproved [] 0) ''hash'' 1000 kSuccess []
         (demo_store [demo_meta ''a'' Error ''bh'' 7, demo_meta ''u'' Unapproved [] 0])))
   \<and> store_invariant (fst (ProcessSolanaHardwareSignature (\<lambda>t signature. Some signature)
         ''a'' [1]
         (demo_store [demo_meta ''a'' Error ''bh'' 7, demo_meta ''u'' Unapproved [] 0])))
   \<and> store_invariant (fst (OnSendSolanaTransaction {} 9 ''a'' ''sig2'' kSuccess []
         (demo_store [demo_meta ''a'' Error ''bh'' 7, demo_meta ''u'' Unapproved [] 0])))
   \<and> store_invariant (OnGetSignatureStatuses ''0x65'' [''a''] 1000 [None] kSuccess [] 9
         (demo_store [demo_meta ''a'' Error ''bh'' 7, demo_meta ''u'' Unapproved [] 0]))
   \<and> store_invariant (fst (RetryTransaction demo_IsRetriable demo_UsesDurableNonce ''b'' 9
         ''a'' (demo_store [demo_meta ''a'' Error ''bh'' 7, demo_meta ''u'' Unapproved [] 0])))"
proof -
  let ?u = "demo_meta ''u'' Unapproved [] 0"
  let ?s = "demo_store [demo_meta ''a'' Error ''bh'' 7, ?u]"
  have inv: "store_invariant ?s"
    by (simp add: store_invariant_def blockhash_height_invariant_def demo_defs)
  have w: "accepts_writes ?s" by (simp add: demo_defs)
  have a: "GetSolanaTx ''a'' ?s = Some (demo_meta ''a'' Error ''bh'' 7)"
    "\<not> demo_UsesDurableNonce (message (tx (demo_meta ''a'' Error ''bh'' 7)))"
    "blockhash_height_invariant (message (tx (demo_meta ''n'' Unapproved [] 0)))"
    by (simp_all add: GetSolanaTx_def blockhash_height_invariant_def demo_defs)
  show ?thesis
    using inv
      blockhash_and_height_written_together [OF inv, where generated_id = "''b''" and now = 9
        and chain = "''0x65''" and tx_from_data = "Some (tx (demo_meta ''n'' Unapproved [] 0))"
        and tx_meta_id = "''a''" and meta = ?u and blockhash = "''hash''" and height = 1234
        and block_height = 1000 and error = kSuccess and msg = "[]"
        and serialize = "\<lambda>t. Some [1]" and signed_bytes = "\<lambda>t signature. Some signature"
        and signature_bytes = "[1]" and pending = "{}" and signature = "''sig2''"
        and pending_chain = None and h = 1000 and ids = "[''a'']" and sts = "[None]"
        and k = "''a''"
        and IsRetriable = demo_IsRetriable and UsesDurableNonce = demo_UsesDurableNonce]
    by (simp add: w a)
qed

text \<open>
  Claim C7 as the specification words it fails in three places.
  \<^item> Retry of a durable-nonce transaction: the message of \<open>a\<close> has the blockhash \<open>bh\<close>
    and the height \<open>7\<close>; the retried transaction \<open>b\<close> keeps \<open>bh\<close> with the height \<open>0\<close>.
  \<^item> Approval: the transaction \<open>a\<close> has an empty blockhash and the height \<open>0\<close>; when
    the response to \<^verbatim>\<open>GetLatestBlockhash\<close> carries the blockhash \<open>hash\<close> and the height
    \<open>0\<close>, both are stored as they come.
  \<^item> \<^verbatim>\<open>AddUnapprovedTransaction\<close> of a transaction whose message has a blockhash and no
    last-valid-block-height stores it so; the second branch of \<^verbatim>\<open>ApproveTransaction\<close>
    is there for such transactions.
\<close>

theorem blockhash_and_height_written_together_counterexample:
  "GetSolanaTx ''a'' (demo_store [demo_nonce_meta ''a'' Error ''bh'' 7])
     = Some (demo_nonce_meta ''a'' Error ''bh'' 7)
   \<and> blockhash_height_invariant (message (tx (demo_nonce_meta ''a'' Error ''bh'' 7)))
   \<and> demo_UsesDurableNonce (message (tx (demo_nonce_meta ''a'' Error ''bh'' 7)))
   \<and> snd (RetryTransaction demo_IsRetriable demo_UsesDurableNonce ''b'' 9 ''a''
            (demo_store [demo_nonce_meta ''a'' Error ''bh'' 7]))
     = [RetryTransactionCallback True ''b'' []]
   \<and> GetSolanaTx ''b'' (fst (RetryTransaction demo_IsRetriable demo_UsesDurableNonce ''b'' 9
         ''a'' (demo_store [demo_nonce_meta ''a'' Error ''bh'' 7]))) \<noteq> None
   \<and> \<not> blockhash_height_invariant (message (tx (the (GetSolanaTx ''b''
         (fst (RetryTransaction demo_IsRetriable demo_UsesDurableNonce ''b'' 9 ''a''
                (demo_store [demo_nonce_meta ''a'' Error ''bh'' 7])))))))
   \<and> blockhash_height_invariant (message (tx (demo_meta ''a'' Unapproved [] 0)))
   \<and> GetSolanaTx ''a'' (fst (OnGetLatestBlockhash (demo_meta ''a'' Unapproved [] 0) ''hash'' 0
         kSuccess [] (demo_store [demo_meta ''a'' Unapproved [] 0])))
     = Some (demo_meta ''a'' Approved ''hash'' 0)
   \<and> \<not> blockhash_height_invariant (message (tx (demo_meta ''a'' Approved ''hash'' 0)))
   \<and> stored_message ''b'' (fst (AddUnapprovedTransaction ''b'' 9 ''0x65''
         (Some (tx (demo_meta ''a'' Unapproved ''bh'' 0))) (demo_store [])))
     = Some (message (tx (demo_meta ''a'' Unapproved ''bh'' 0)))
   \<and> \<not> blockhash_height_invariant (message (tx (demo_meta ''a'' Unapproved ''bh'' 0)))"
  by (simp add: demo_defs tx_eval blockhash_height_invariant_def stored_message_def
      AddUnapprovedTransaction_def new_tx_meta_def)


section \<open>The NFT page parser\<close>

lemma parse_nft_unfiltered:
  "parse_nft parse_fields skip_spam only_spam v = Some t \<Longrightarrow>
   parse_nft parse_fields False False v = Some t"
  by (auto simp: parse_nft_def split: json.splits option.splits if_splits)

lemma set_map_filter_eq:
  "set (List.map_filter f xs) = {y. \<exists>x \<in> set xs. f x = Some y}"
  by (induction xs) (auto simp: List.map_filter_simps split: option.splits)

lemma set_map_filter_parse_nft:
  "set (List.map_filter (parse_nft parse_fields skip_spam only_spam) nfts)
     \<subseteq> set (List.map_filter (parse_nft parse_fields False False) nfts)"
  by (auto simp: set_map_filter_eq dest: parse_nft_unfiltered)

lemmas parse_eval = ParseNFTsFromSimpleHash_def parse_nft_def spam_score_def next_cursor_def
  demo_parse_fields_def demo_nft_def demo_page_def List.map_filter_simps

text \<open>
  Claim C9. With both flags set the parser yields no result. With both flags clear, on a
  page that is an object with an array \<^verbatim>\<open>nfts\<close>, it yields every record that parses,
  whatever its spam score; in particular every record returned under \<open>skip_spam\<close> alone
  or under \<open>only_spam\<close> alone is returned.
\<close>

theorem parse_spam_flags:
  "ParseNFTsFromSimpleHash parse_fields json_value True True = None
   \<and> (json_value = JDict page \<and> map_of page ''nfts'' = Some (JList nfts) \<longrightarrow>
        ParseNFTsFromSimpleHash parse_fields json_value False False
          = Some (next_cursor page,
                  List.map_filter (parse_nft parse_fields False False) nfts)
        \<and> (\<forall>nft. spam_score nft \<noteq> None \<longrightarrow>
              parse_nft parse_fields False False (JDict nft) = parse_fields nft)
        \<and> (\<forall>skip_spam only_spam. \<not> (skip_spam \<and> only_spam) \<longrightarrow>
              (\<exists>tokens. ParseNFTsFromSimpleHash parse_fields json_value skip_spam only_spam
                          = Some (next_cursor page, tokens)
                 \<and> set tokens
                      \<subseteq> set (List.map_filter (parse_nft parse_fields False False) nfts))))"
  using set_map_filter_parse_nft [of parse_fields _ _ nfts]
  by (auto simp: ParseNFTsFromSimpleHash_def parse_nft_def)

text \<open>The page of the unit test under the four combinations of the flags.\<close>

theorem parse_spam_flags_witness:
  "ParseNFTsFromSimpleHash demo_parse_fields demo_page True True = None
   \<and> ParseNFTsFromSimpleHash demo_parse_fields demo_page False False
       = Some (None, [''AvdAUsR4qgsT5HgyKCVeGjimmyu8xrG3RudFqm5txDDE'',
                      ''BHWBJ7XtBqJJbg9SrAUH4moeF8VpJo3WXyDh6vc1qqLG''])
   \<and> ParseNFTsFromSimpleHash demo_parse_fields demo_page True False
       = Some (None, [''BHWBJ7XtBqJJbg9SrAUH4moeF8VpJo3WXyDh6vc1qqLG''])
   \<and> ParseNFTsFromSimpleHash demo_parse_fields demo_page False True
       = Some (None, [''AvdAUsR4qgsT5HgyKCVeGjimmyu8xrG3RudFqm5txDDE''])"
  using parse_spam_flags [of demo_parse_fields demo_page]
  by (simp add: parse_eval)


end
